theory Spec2Isabelle
  imports Main "HOL-Library.Sublist"
begin

section \<open>JavaScript values read from parsed JSON\<close>

text \<open>
  The value \<^verbatim>\<open>JSON.parse\<close> yields. An object is the list of its own properties in the
  order they were created, which for a parsed text is the order in which its keys are
  written (a repeated key keeps its first place and its last value, so no name occurs
  twice). Numbers are kept as integers: the code only tests them for truthiness and
  passes them on.
\<close>

datatype json =
    JNull
  | JBool bool
  | JNum int
  | JStr string
  | JArr "json list"
  | JObj "(string \<times> json) list"

text \<open>
  A JavaScript expression over such values is a \<^typ>\<open>json option\<close>: \<open>None\<close> is
  \<^verbatim>\<open>undefined\<close>. \<open>truthy\<close> is the test behind \<^verbatim>\<open>if (x)\<close>, \<^verbatim>\<open>!x\<close>, \<^verbatim>\<open>x ? a : b\<close>
  and \<^verbatim>\<open>x || y\<close>.
\<close>

fun truthy :: "json option \<Rightarrow> bool" where
  "truthy None = False"
| "truthy (Some JNull) = False"
| "truthy (Some (JBool b)) = b"
| "truthy (Some (JNum n)) = (n \<noteq> 0)"
| "truthy (Some (JStr s)) = (s \<noteq> [])"
| "truthy (Some (JArr xs)) = True"
| "truthy (Some (JObj kvs)) = True"

text \<open>Decimal rendering of an array index, as property keys spell it.\<close>

fun string_of_nat :: "nat \<Rightarrow> string" where
  "string_of_nat n =
     (if n < 10 then [''0123456789'' ! n]
      else string_of_nat (n div 10) @ [''0123456789'' ! (n mod 10)])"

declare string_of_nat.simps [simp del]

text \<open>
  The own enumerable properties of a value with their values, in creation order. Arrays
  and strings have their indices; numbers and booleans have none.
\<close>

fun entries_of :: "json \<Rightarrow> (string \<times> json) list" where
  "entries_of (JObj kvs) = kvs"
| "entries_of (JArr xs) = zip (map string_of_nat [0..<length xs]) xs"
| "entries_of (JStr s) = zip (map string_of_nat [0..<length s]) (map (\<lambda>c. JStr [c]) s)"
| "entries_of v = []"

text \<open>
  A property name is an array index when it is the canonical decimal spelling of an
  integer from 0 to \<open>2^32 - 2\<close>: digits only, no leading zero.
\<close>

definition is_digit :: "char \<Rightarrow> bool" where
  "is_digit c = (c \<in> set ''0123456789'')"

definition index_value :: "string \<Rightarrow> int" where
  "index_value s = foldl (\<lambda>n c. 10 * n + (of_char c - 48)) 0 s"

definition is_array_index :: "string \<Rightarrow> bool" where
  "is_array_index s =
     (s \<noteq> [] \<and> list_all is_digit s \<and> (s = ''0'' \<or> take 1 s \<noteq> ''0'')
      \<and> index_value s < 4294967295)"

text \<open>
  The order in which JavaScript enumerates own property names: the array indices first,
  in ascending numeric order, then the other names in creation order.
\<close>

definition key_order :: "string list \<Rightarrow> string list" where
  "key_order ks =
     sort_key index_value (filter is_array_index ks)
     @ filter (\<lambda>k. \<not> is_array_index k) ks"

text \<open>\<^verbatim>\<open>Object.keys(v)\<close>.\<close>

definition object_keys :: "json \<Rightarrow> string list" where
  "object_keys v = key_order (map fst (entries_of v))"

text \<open>
  The own property \<^verbatim>\<open>v[key]\<close> of a value that is neither \<^verbatim>\<open>null\<close> nor \<^verbatim>\<open>undefined\<close>,
  the \<^verbatim>\<open>length\<close> of an array or string included. It is the whole read where the name is
  an own key or one that no built-in prototype defines (\<^verbatim>\<open>packageManager\<close>, \<^verbatim>\<open>name\<close>,
  the three group names); a read under a name the caller chooses is \<open>read_prop\<close> below.
\<close>

definition get_prop :: "json \<Rightarrow> string \<Rightarrow> json option" where
  "get_prop v key =
     (case map_of (entries_of v) key of
        Some x \<Rightarrow> Some x
      | None \<Rightarrow>
          (case v of
             JArr xs \<Rightarrow> if key = ''length'' then Some (JNum (int (length xs))) else None
           | JStr s \<Rightarrow> if key = ''length'' then Some (JNum (int (length s))) else None
           | _ \<Rightarrow> None))"

text \<open>Optional chaining \<^verbatim>\<open>v?.[key]\<close>: \<^verbatim>\<open>undefined\<close> when \<open>v\<close> is \<^verbatim>\<open>null\<close> or \<^verbatim>\<open>undefined\<close>.\<close>

definition opt_prop :: "json option \<Rightarrow> string \<Rightarrow> json option" where
  "opt_prop v key =
     (case v of None \<Rightarrow> None | Some JNull \<Rightarrow> None | Some x \<Rightarrow> get_prop x key)"

text \<open>What a \<^verbatim>\<open>throw\<close> carries.\<close>

datatype js_error =
    FsError
  | SyntaxError
  | TypeError
  | TaskFailed int
  | HttpError nat
  | NetworkError

text \<open>
  Plain member access \<^verbatim>\<open>v.key\<close>: a \<^verbatim>\<open>TypeError\<close> on \<^verbatim>\<open>null\<close>.
\<close>

definition dot_prop :: "json \<Rightarrow> string \<Rightarrow> js_error + json option" where
  "dot_prop v key = (case v of JNull \<Rightarrow> Inl TypeError | _ \<Rightarrow> Inr (get_prop v key))"

section \<open>Strings and paths\<close>

text \<open>\<^verbatim>\<open>s.split(c)\<close> for a one-character separator: never empty.\<close>

fun split_on :: "char \<Rightarrow> string \<Rightarrow> string list" where
  "split_on c [] = [[]]"
| "split_on c (x # xs) =
     (if x = c then [] # split_on c xs
      else (case split_on c xs of
              [] \<Rightarrow> [[x]]
            | y # ys \<Rightarrow> (x # y) # ys))"

text \<open>\<^verbatim>\<open>s.startsWith(p)\<close> and \<^verbatim>\<open>s.includes(sub)\<close>.\<close>

definition startsWith :: "string \<Rightarrow> string \<Rightarrow> bool" where
  "startsWith s p = prefix p s"

fun str_includes :: "string \<Rightarrow> string \<Rightarrow> bool" where
  "str_includes [] sub = (sub = [])"
| "str_includes (c # cs) sub = (prefix sub (c # cs) \<or> str_includes cs sub)"

text \<open>
  An absolute, normalised path is the list of its segments. \<^verbatim>\<open>path.join\<close> and
  \<^verbatim>\<open>path.resolve\<close> on an absolute base append the parts, split at \<^verbatim>\<open>/\<close>, dropping
  empty and \<^verbatim>\<open>.\<close> segments and letting \<^verbatim>\<open>..\<close> remove the last one (the root is its
  own parent). \<^verbatim>\<open>path.dirname\<close> drops the last segment.
\<close>

type_synonym path = "string list"

definition path_part :: "path \<Rightarrow> string \<Rightarrow> path" where
  "path_part p seg =
     (if seg = [] \<or> seg = ''.'' then p
      else if seg = ''..'' then butlast p
      else p @ [seg])"

definition path_join :: "path \<Rightarrow> string list \<Rightarrow> path" where
  "path_join p parts = foldl path_part p (concat (map (split_on CHR ''/'') parts))"

definition dirname :: "path \<Rightarrow> path" where
  "dirname p = butlast p"

text \<open>\<^verbatim>\<open>path.resolve\<close>: as \<^verbatim>\<open>path.join\<close>, but a part that starts with \<^verbatim>\<open>/\<close> starts over.\<close>

definition path_resolve :: "path \<Rightarrow> string list \<Rightarrow> path" where
  "path_resolve p parts =
     foldl (\<lambda>acc part. foldl path_part (if startsWith part ''/'' then [] else acc)
                         (split_on CHR ''/'' part)) p parts"

text \<open>The path as the string the code compares with \<^verbatim>\<open>startsWith\<close> and \<^verbatim>\<open>includes\<close>.\<close>

definition render :: "path \<Rightarrow> string" where
  "render p = (if p = [] then ''/'' else concat (map (\<lambda>seg. ''/'' @ seg) p))"

section \<open>The file system and the other collaborators\<close>

text \<open>
  A file is known by what \<^verbatim>\<open>JSON.parse\<close> makes of its text: \<open>File None\<close> holds text
  that does not parse. There are no symbolic links (\<^verbatim>\<open>fs.realpathSync\<close> is the identity
  on an existing path and throws otherwise) and every existing path is accessible.
\<close>

datatype entry = Dir | File "json option"

type_synonym filesystem = "path \<Rightarrow> entry option"

text \<open>\<^verbatim>\<open>fs.existsSync(p)\<close>, and \<^verbatim>\<open>pathExists(p)\<close> built on \<^verbatim>\<open>fs.accessSync\<close>.\<close>

definition pathExists :: "filesystem \<Rightarrow> path \<Rightarrow> bool" where
  "pathExists fs p = (fs p \<noteq> None)"

text \<open>\<^verbatim>\<open>JSON.parse(fs.readFileSync(p, 'utf8'))\<close>: throws on a missing file, a directory, bad text.\<close>

definition readJson :: "filesystem \<Rightarrow> path \<Rightarrow> js_error + json" where
  "readJson fs p =
     (case fs p of
        None \<Rightarrow> Inl FsError
      | Some Dir \<Rightarrow> Inl FsError
      | Some (File None) \<Rightarrow> Inl SyntaxError
      | Some (File (Some v)) \<Rightarrow> Inr v)"

text \<open>How a VS Code task ends: with an exit code, or not within the 30 second guard.\<close>

datatype task_outcome = Exited int | TimedOut

text \<open>
  What a function of the extension sees beyond its arguments: the file system, whether
  a shell command run by \<^verbatim>\<open>execAsync\<close> in a directory exits with 0, how a task ends, the
  first workspace folder, the file of the active editor, and the members that the
  JavaScript runtime gives to values that are not plain objects (\<open>kind_members v key\<close>:
  the prototype of the array, string, number or boolean \<open>v\<close>, such as
  \<^verbatim>\<open>Array.prototype\<close>, has a member \<open>key\<close>).
\<close>

record world =
  files :: filesystem
  exec_ok :: "string \<Rightarrow> path \<Rightarrow> bool"
  task_result :: "path \<Rightarrow> string \<Rightarrow> task_outcome"
  workspaceFolder :: "path option"
  activeFile :: "path option"
  kind_members :: "json \<Rightarrow> string \<Rightarrow> bool"

subsection \<open>Reads that reach the prototypes\<close>

text \<open>
  The names every value other than \<^verbatim>\<open>null\<close> and \<^verbatim>\<open>undefined\<close> inherits from
  \<^verbatim>\<open>Object.prototype\<close>.
\<close>

definition objectPrototype :: "string list" where
  "objectPrototype =
     [''constructor'', ''__defineGetter__'', ''__defineSetter__'', ''hasOwnProperty'',
      ''__lookupGetter__'', ''__lookupSetter__'', ''isPrototypeOf'', ''propertyIsEnumerable'',
      ''toString'', ''valueOf'', ''__proto__'', ''toLocaleString'']"

definition inherited :: "world \<Rightarrow> json \<Rightarrow> string \<Rightarrow> bool" where
  "inherited w v key =
     (key \<in> set objectPrototype
      \<or> (case v of JObj kvs \<Rightarrow> False | _ \<Rightarrow> kind_members w v key))"

text \<open>
  What a read \<^verbatim>\<open>v[key]\<close> under an arbitrary name gives: nothing, an own property, or a
  member inherited from a prototype. Such a member is a function or an object, hence
  truthy.
\<close>

datatype jsval = Undefined | Own json | Inherited

fun truthy_val :: "jsval \<Rightarrow> bool" where
  "truthy_val Undefined = False"
| "truthy_val (Own x) = truthy (Some x)"
| "truthy_val Inherited = True"

definition read_prop :: "world \<Rightarrow> json \<Rightarrow> string \<Rightarrow> jsval" where
  "read_prop w v key =
     (case get_prop v key of
        Some x \<Rightarrow> Own x
      | None \<Rightarrow> if inherited w v key then Inherited else Undefined)"

section \<open>Package managers and the install command (extension.ts)\<close>

text \<open>
  \<^verbatim>\<open>type PackageManager = 'npm' | 'pnpm' | 'yarn'\<close>
\<close>

datatype PackageManager = Npm | Pnpm | Yarn

definition pm_name :: "PackageManager \<Rightarrow> string" where
  "pm_name pm = (case pm of Npm \<Rightarrow> ''npm'' | Pnpm \<Rightarrow> ''pnpm'' | Yarn \<Rightarrow> ''yarn'')"

text \<open>
  What a function does besides returning: shell commands run by \<^verbatim>\<open>execAsync\<close>, tasks
  started by \<^verbatim>\<open>executeWithTask\<close>, notifications and progress reports, module
  resolution probes (\<^verbatim>\<open>require.resolve\<close>), registry lookups and HTTP requests, in order.
  \<open>ShowErrorOf prefix e\<close> is the error notification whose text is the prefix followed by
  the error.
\<close>

datatype effect =
    Exec string path
  | RunTask path string PackageManager
  | ShowError string
  | ShowErrorOf string js_error
  | ShowInfo string
  | ShowWarning string
  | Report nat string
  | Resolve string path
  | RegistryLookup string
  | Fetch string

subsection \<open>Finding the package directory\<close>

text \<open>
  The loop of \<^verbatim>\<open>getPackageDirectory\<close> (and of \<^verbatim>\<open>findPackageJsonUpward\<close>):
  \<^verbatim>\<open>while (currentDir !== path.dirname(currentDir) && currentDir.startsWith(rootPath))\<close>,
  returning the first directory that holds a \<^verbatim>\<open>package.json\<close>.
\<close>

function walkUp :: "filesystem \<Rightarrow> path \<Rightarrow> path \<Rightarrow> path option" where
  "walkUp fs rootPath currentDir =
     (if currentDir \<noteq> dirname currentDir \<and> startsWith (render currentDir) (render rootPath)
      then (if pathExists fs (path_join currentDir [''package.json'']) then Some currentDir
            else walkUp fs rootPath (dirname currentDir))
      else None)"
  by pat_completeness auto
termination
proof (relation "measure (\<lambda>(fs, rootPath, currentDir). length currentDir)")
  show "wf (measure (\<lambda>(fs :: filesystem, rootPath :: path, currentDir :: path). length currentDir))"
    by simp
next
  fix fs :: filesystem and rootPath currentDir :: path
  assume "currentDir \<noteq> dirname currentDir \<and> startsWith (render currentDir) (render rootPath)"
  then have "currentDir \<noteq> []"
    by (auto simp: dirname_def)
  then show "((fs, rootPath, dirname currentDir), (fs, rootPath, currentDir))
      \<in> measure (\<lambda>(fs, rootPath, currentDir). length currentDir)"
    by (simp add: dirname_def)
qed

declare walkUp.simps [simp del]

definition getPackageDirectory :: "world \<Rightarrow> path option" where
  "getPackageDirectory w =
     (case workspaceFolder w of
        None \<Rightarrow> None
      | Some rootPath \<Rightarrow>
          (let atRoot = (if pathExists (files w) (path_join rootPath [''package.json''])
                         then Some rootPath else None)
           in case activeFile w of
                None \<Rightarrow> atRoot
              | Some activeFilePath \<Rightarrow>
                  if \<not> startsWith (render activeFilePath) (render rootPath) then atRoot
                  else (case walkUp (files w) rootPath (dirname activeFilePath) of
                          Some currentDir \<Rightarrow> Some currentDir
                        | None \<Rightarrow> atRoot)))"

subsection \<open>Detecting the package manager\<close>

text \<open>\<^verbatim>\<open>['npm', 'pnpm', 'yarn'].includes(packageManager)\<close>, with the manager it names.\<close>

definition recognised :: "string \<Rightarrow> PackageManager option" where
  "recognised s =
     (if s = ''npm'' then Some Npm
      else if s = ''pnpm'' then Some Pnpm
      else if s = ''yarn'' then Some Yarn
      else None)"

text \<open>
  Step 1 on a parsed manifest:
  \<^verbatim>\<open>if (packageJson.packageManager) { const packageManager = packageJson.packageManager.split('@')[0]; ... }\<close>.
  Reading the field of \<^verbatim>\<open>null\<close> and calling \<^verbatim>\<open>split\<close> on a value that is not a string
  throw a \<^verbatim>\<open>TypeError\<close>. \<open>Inr None\<close>: no manager named, go on to the lock files.
\<close>

definition packageManagerField :: "json \<Rightarrow> js_error + PackageManager option" where
  "packageManagerField packageJson =
     (case dot_prop packageJson ''packageManager'' of
        Inl e \<Rightarrow> Inl e
      | Inr field \<Rightarrow>
          if truthy field then
            (case field of
               Some (JStr s) \<Rightarrow>
                 (case split_on CHR ''@'' s of
                    [] \<Rightarrow> Inr None
                  | packageManager # _ \<Rightarrow> Inr (recognised packageManager))
             | _ \<Rightarrow> Inl TypeError)
          else Inr None)"

definition lockFiles :: "(string \<times> PackageManager) list" where
  "lockFiles =
     [(''pnpm-lock.yaml'', Pnpm), (''yarn.lock'', Yarn), (''package-lock.json'', Npm)]"

fun firstLockFile ::
  "filesystem \<Rightarrow> path \<Rightarrow> (string \<times> PackageManager) list \<Rightarrow> PackageManager option" where
  "firstLockFile fs dir [] = None"
| "firstLockFile fs dir ((file, manager) # rest) =
     (if pathExists fs (path_join dir [file]) then Some manager
      else firstLockFile fs dir rest)"

text \<open>
  \<^verbatim>\<open>NpmQuickPickProvider.detectPackageManager(packageDir)\<close>. Anything thrown in steps 1
  and 2 lands in the outer \<^verbatim>\<open>catch\<close>, which returns \<^verbatim>\<open>'npm'\<close>. Step 3 runs
  \<^verbatim>\<open>which pnpm\<close>, then \<^verbatim>\<open>which yarn\<close>.
\<close>

definition detectPackageManager :: "world \<Rightarrow> path \<Rightarrow> PackageManager \<times> effect list" where
  "detectPackageManager w packageDir =
     (let packageJsonPath = path_join packageDir [''package.json''];
          step1 = (if pathExists (files w) packageJsonPath
                   then (case readJson (files w) packageJsonPath of
                           Inl e \<Rightarrow> Inl e
                         | Inr packageJson \<Rightarrow> packageManagerField packageJson)
                   else Inr None)
      in case step1 of
           Inl e \<Rightarrow> (Npm, [])
         | Inr (Some manager) \<Rightarrow> (manager, [])
         | Inr None \<Rightarrow>
             (case firstLockFile (files w) packageDir lockFiles of
                Some manager \<Rightarrow> (manager, [])
              | None \<Rightarrow>
                  if exec_ok w ''which pnpm'' packageDir
                  then (Pnpm, [Exec ''which pnpm'' packageDir])
                  else if exec_ok w ''which yarn'' packageDir
                  then (Yarn, [Exec ''which pnpm'' packageDir, Exec ''which yarn'' packageDir])
                  else (Npm, [Exec ''which pnpm'' packageDir, Exec ''which yarn'' packageDir])))"

subsection \<open>Commands\<close>

text \<open>
  \<^verbatim>\<open>IPackage\<close> (types/npm-search): only \<^verbatim>\<open>name\<close> and \<^verbatim>\<open>version\<close> are read by the
  install flow; the record is extensible for the remaining display fields.
\<close>

record IPackage =
  pkg_name :: string
  pkg_version :: string

text \<open>
  \<^verbatim>\<open>buildInstallCommand(packageManager, pkg, installType = '', includeTypes = false)\<close>.
  The install type is the raw flag string the callers pass:
  \<^verbatim>\<open>''\<close>, \<^verbatim>\<open>'--save-dev'\<close> or \<^verbatim>\<open>'--save-peer'\<close>.
\<close>

definition mainInstallCommand :: "PackageManager \<Rightarrow> string \<Rightarrow> string \<Rightarrow> string" where
  "mainInstallCommand packageManager installType packageSpec =
     (case packageManager of
        Pnpm \<Rightarrow>
          (if installType = ''--save-dev'' then ''pnpm add -D '' @ packageSpec
           else if installType = ''--save-peer'' then ''pnpm add -P '' @ packageSpec
           else ''pnpm add '' @ packageSpec)
      | Yarn \<Rightarrow>
          (if installType = ''--save-dev'' then ''yarn add -D '' @ packageSpec
           else if installType = ''--save-peer'' then ''yarn add -P '' @ packageSpec
           else ''yarn add '' @ packageSpec)
      | Npm \<Rightarrow>
          (if installType = ''--save-dev'' then ''npm install --save-dev '' @ packageSpec
           else if installType = ''--save-peer'' then ''npm install --save-peer '' @ packageSpec
           else ''npm install '' @ packageSpec))"

definition typesInstallCommand :: "PackageManager \<Rightarrow> string \<Rightarrow> string" where
  "typesInstallCommand packageManager typesPackage =
     (case packageManager of
        Pnpm \<Rightarrow> ''pnpm add -D '' @ typesPackage
      | Yarn \<Rightarrow> ''yarn add -D '' @ typesPackage
      | Npm \<Rightarrow> ''npm install --save-dev '' @ typesPackage)"

definition buildInstallCommand ::
  "PackageManager \<Rightarrow> 'a IPackage_scheme \<Rightarrow> string \<Rightarrow> bool \<Rightarrow> string" where
  "buildInstallCommand packageManager pkg installType includeTypes =
     (let packageSpec = pkg_name pkg @ ''@'' @ pkg_version pkg;
          typesPackage = ''@types/'' @ pkg_name pkg;
          mainCommand = mainInstallCommand packageManager installType packageSpec
      in if \<not> includeTypes \<or> installType = ''--save-peer'' then mainCommand
         else mainCommand @ '' && '' @ typesInstallCommand packageManager typesPackage)"

text \<open>\<^verbatim>\<open>buildRemoveCommand(packageManager, packageName, hasTypesPackage = false)\<close>.\<close>

definition removeVerb :: "PackageManager \<Rightarrow> string" where
  "removeVerb packageManager =
     (case packageManager of
        Pnpm \<Rightarrow> ''pnpm remove ''
      | Yarn \<Rightarrow> ''yarn remove ''
      | Npm \<Rightarrow> ''npm uninstall '')"

definition buildRemoveCommand :: "PackageManager \<Rightarrow> string \<Rightarrow> bool \<Rightarrow> string" where
  "buildRemoveCommand packageManager packageName hasTypesPackage =
     (let typesPackage = ''@types/'' @ packageName;
          mainCommand = removeVerb packageManager @ packageName
      in if \<not> hasTypesPackage then mainCommand
         else mainCommand @ '' && '' @ removeVerb packageManager @ typesPackage)"

text \<open>
  \<^verbatim>\<open>checkTypesPackageExists(packageManager, packageName, cwd)\<close>: the existence probe, a
  \<^verbatim>\<open>view\<close>/\<^verbatim>\<open>info\<close> command run by \<^verbatim>\<open>execAsync\<close>; a failing command means no types.
\<close>

definition checkTypesPackageExists ::
  "world \<Rightarrow> PackageManager \<Rightarrow> string \<Rightarrow> path \<Rightarrow> bool \<times> effect list" where
  "checkTypesPackageExists w packageManager packageName cwd =
     (let typesPackage = ''@types/'' @ packageName;
          checkCommand =
            (if packageManager = Npm then ''npm view '' @ typesPackage @ '' version''
             else if packageManager = Pnpm then ''pnpm view '' @ typesPackage @ '' version''
             else ''yarn info '' @ typesPackage @ '' version'')
      in (exec_ok w checkCommand cwd, [Exec checkCommand cwd]))"

text \<open>
  \<^verbatim>\<open>executeWithTask(cwd, command, packageManager)\<close>: resolves on exit code 0 and on the
  timeout, rejects on any other exit code.
\<close>

definition executeWithTask ::
  "world \<Rightarrow> path \<Rightarrow> string \<Rightarrow> PackageManager \<Rightarrow> (js_error + unit) \<times> effect list" where
  "executeWithTask w cwd command packageManager =
     (case task_result w cwd command of
        Exited code \<Rightarrow>
          if code = 0 then (Inr (), [RunTask cwd command packageManager])
          else (Inl (TaskFailed code), [RunTask cwd command packageManager])
      | TimedOut \<Rightarrow> (Inr (), [RunTask cwd command packageManager]))"

subsection \<open>Installing and removing a package\<close>

text \<open>
  \<^verbatim>\<open>installPackage(pkg, installType = '')\<close>. Every failure is caught and shown; nothing is
  thrown.
\<close>

definition installPackage :: "world \<Rightarrow> IPackage \<Rightarrow> string \<Rightarrow> effect list" where
  "installPackage w pkg installType =
     (case getPackageDirectory w of
        None \<Rightarrow> [ShowError ''No package.json found in workspace'']
      | Some packageDir \<Rightarrow>
          (let (packageManager, detectFx) = detectPackageManager w packageDir;
               (includeTypes, probeFx) =
                 (if installType \<noteq> ''--save-peer''
                  then checkTypesPackageExists w packageManager (pkg_name pkg) packageDir
                  else (False, []));
               installCommand = buildInstallCommand packageManager pkg installType includeTypes;
               (ran, taskFx) = executeWithTask w packageDir installCommand packageManager;
               started =
                 detectFx @ probeFx
                 @ [Report 0 (''Detected package manager: '' @ pm_name packageManager)]
                 @ (if installType \<noteq> ''--save-peer''
                    then [Report 10
                           (if includeTypes
                            then ''Type definitions found, will install package and types (as dev dependency)''
                            else ''No type definitions found, installing package only'')]
                    else [])
                 @ [Report 20
                      (if includeTypes
                       then ''Installing '' @ pkg_name pkg @ '' and @types/'' @ pkg_name pkg
                            @ '' (as dev dependency)...''
                       else ''Installing '' @ pkg_name pkg @ ''...'')]
                 @ taskFx
           in case ran of
                Inl e \<Rightarrow> started @ [ShowErrorOf ''Failed to install package: '' e]
              | Inr u \<Rightarrow>
                  started
                  @ [Report 70
                       (if includeTypes
                        then ''Package and type definitions (dev dependency) installed successfully''
                        else ''Package installed successfully''),
                     ShowInfo
                       (''Successfully installed '' @ pkg_name pkg @ ''@'' @ pkg_version pkg
                        @ (if includeTypes then '' and type definitions (as dev dependency)'' else [])
                        @ (if installType \<noteq> [] then '' ('' @ installType @ '')'' else [])
                        @ '' using '' @ pm_name packageManager)]))"

text \<open>
  \<^verbatim>\<open>pkg?.dependencies?.[packageName]\<close> and its siblings.
\<close>

definition declaredIn :: "world \<Rightarrow> json \<Rightarrow> string \<Rightarrow> string \<Rightarrow> jsval" where
  "declaredIn w pkg depGroup packageName =
     (case opt_prop (Some pkg) depGroup of
        None \<Rightarrow> Undefined
      | Some JNull \<Rightarrow> Undefined
      | Some g \<Rightarrow> read_prop w g packageName)"

text \<open>
  \<^verbatim>\<open>removePackage(packageName, workspaceRoot)\<close>. The manager is detected first. A failure
  after that is shown and thrown again (\<open>Inl\<close>). The first error message is a plain
  string literal in the source, so its \<^verbatim>\<open>${workspaceRoot}\<close> is shown as written.
\<close>

definition removePackage :: "world \<Rightarrow> string \<Rightarrow> path \<Rightarrow> (js_error + unit) \<times> effect list" where
  "removePackage w packageName workspaceRoot =
     (let (packageManager, detectFx) = detectPackageManager w workspaceRoot;
          typesPackage = ''@types/'' @ packageName;
          pkgPath = path_join workspaceRoot [''package.json'']
      in if \<not> pathExists (files w) pkgPath
         then (Inr (), detectFx @ [ShowError ''No package.json found in dir ${workspaceRoot}''])
         else
           (case readJson (files w) pkgPath of
              Inl e \<Rightarrow> (Inl e, detectFx @ [ShowErrorOf ''Failed to remove package: '' e])
            | Inr pkg \<Rightarrow>
                if \<not> truthy_val (declaredIn w pkg ''dependencies'' packageName)
                   \<and> \<not> truthy_val (declaredIn w pkg ''devDependencies'' packageName)
                   \<and> \<not> truthy_val (declaredIn w pkg ''peerDependencies'' packageName)
                then (Inr (),
                      detectFx
                      @ [ShowError (''Package '' @ packageName
                           @ '' not found in package.json in dir '' @ render workspaceRoot)])
                else
                  (let hasTypesPackage =
                         (truthy_val (declaredIn w pkg ''devDependencies'' typesPackage)
                          \<or> truthy_val (declaredIn w pkg ''peerDependencies'' typesPackage)
                          \<or> truthy_val (declaredIn w pkg ''dependencies'' typesPackage));
                       removeCommand = buildRemoveCommand packageManager packageName hasTypesPackage;
                       (ran, taskFx) = executeWithTask w workspaceRoot removeCommand packageManager;
                       started =
                         detectFx
                         @ [Report 0 (''Detected package manager: '' @ pm_name packageManager)]
                         @ (if hasTypesPackage
                            then [Report 10 (''Found type definitions for '' @ packageName
                                   @ '', will remove both package and types'')]
                            else [])
                         @ [Report 20 ''Removing package...'']
                         @ taskFx
                   in case ran of
                        Inl e \<Rightarrow> (Inl e, started @ [ShowErrorOf ''Failed to remove package: '' e])
                      | Inr u \<Rightarrow>
                          (Inr (),
                           started
                           @ [Report 70 ''Package removed successfully'',
                              ShowInfo
                                (''Successfully removed '' @ packageName
                                 @ (if hasTypesPackage then '' and type definitions'' else [])
                                 @ '' using '' @ pm_name packageManager)]))))"

section \<open>The dependency tree (views/node-dependencies.ts)\<close>

text \<open>
  \<^verbatim>\<open>class Dependency extends vscode.TreeItem\<close>: the constructor's arguments and the
  \<^verbatim>\<open>contextValue\<close> it derives. The version is whatever value the manifest holds.
\<close>

datatype CollapsibleState = StateNone | Collapsed

datatype DepType = Dep | Dev | Peer

record Dependency =
  collapsibleState :: CollapsibleState
  label :: string
  version :: "json option"
  depType :: DepType
  workspaceDir :: path
  contextValue :: string

definition newDependency ::
  "CollapsibleState \<Rightarrow> string \<Rightarrow> json option \<Rightarrow> DepType \<Rightarrow> path \<Rightarrow> Dependency" where
  "newDependency state moduleName ver type dir =
     \<lparr>collapsibleState = state, label = moduleName, version = ver, depType = type,
      workspaceDir = dir,
      contextValue = (if str_includes (render dir) ''node_modules''
                      then ''indirectDependency'' else ''dependency'')\<rparr>"

text \<open>
  The closure \<^verbatim>\<open>toDep(moduleName, version, type)\<close> of \<^verbatim>\<open>getDepsInPackageJson\<close>, with
  the \<^verbatim>\<open>workspaceRoot\<close> and \<^verbatim>\<open>workspaceDir\<close> it captures.
\<close>

definition toDep ::
  "filesystem \<Rightarrow> path \<Rightarrow> path \<Rightarrow> string \<Rightarrow> json option \<Rightarrow> DepType \<Rightarrow> Dependency" where
  "toDep fs workspaceRoot dir moduleName ver type =
     (if pathExists fs (path_join workspaceRoot [''node_modules'', moduleName])
      then newDependency Collapsed moduleName ver type dir
      else newDependency StateNone moduleName ver type dir)"

text \<open>
  One group:
  \<^verbatim>\<open>packageJson.g ? Object.keys(packageJson.g).map(dep => toDep(dep, packageJson.g[dep], t)) : []\<close>.
\<close>

definition groupDeps ::
  "filesystem \<Rightarrow> path \<Rightarrow> path \<Rightarrow> json \<Rightarrow> string \<Rightarrow> DepType \<Rightarrow> js_error + Dependency list" where
  "groupDeps fs workspaceRoot dir packageJson groupName type =
     (case dot_prop packageJson groupName of
        Inl e \<Rightarrow> Inl e
      | Inr g \<Rightarrow>
          if truthy g then
            (case g of
               None \<Rightarrow> Inr []
             | Some obj \<Rightarrow>
                 Inr (map (\<lambda>dep. toDep fs workspaceRoot dir dep (get_prop obj dep) type)
                        (object_keys obj)))
          else Inr [])"

text \<open>
  \<^verbatim>\<open>getDepsInPackageJson(packageJsonPath)\<close>; \<open>workspaceRoot\<close> is \<^verbatim>\<open>this.workspaceRoot\<close>.
  A manifest that cannot be read or parsed rejects the promise (\<open>Inl\<close>).
\<close>

definition getDepsInPackageJson ::
  "filesystem \<Rightarrow> path option \<Rightarrow> path \<Rightarrow> js_error + Dependency list" where
  "getDepsInPackageJson fs workspaceRoot packageJsonPath =
     (case workspaceRoot of
        None \<Rightarrow> Inr []
      | Some root \<Rightarrow>
          if pathExists fs packageJsonPath then
            (case readJson fs packageJsonPath of
               Inl e \<Rightarrow> Inl e
             | Inr packageJson \<Rightarrow>
                 (let dir = dirname packageJsonPath in
                  case groupDeps fs root dir packageJson ''peerDependencies'' Peer of
                    Inl e \<Rightarrow> Inl e
                  | Inr peerDeps \<Rightarrow>
                      (case groupDeps fs root dir packageJson ''dependencies'' Dep of
                         Inl e \<Rightarrow> Inl e
                       | Inr deps \<Rightarrow>
                           (case groupDeps fs root dir packageJson ''devDependencies'' Dev of
                              Inl e \<Rightarrow> Inl e
                            | Inr devDeps \<Rightarrow> Inr (peerDeps @ deps @ devDeps)))))
          else Inr [])"

text \<open>
  \<^verbatim>\<open>findPackageJsonUpward(startPath)\<close> and \<^verbatim>\<open>getRelevantPackageJsonPath()\<close>, for a
  defined workspace root (the only case in which \<^verbatim>\<open>getChildren\<close> calls them).
\<close>

definition findPackageJsonUpward :: "filesystem \<Rightarrow> path \<Rightarrow> path \<Rightarrow> path option" where
  "findPackageJsonUpward fs workspaceRoot startPath =
     (if \<not> startsWith (render startPath) (render workspaceRoot) then None
      else
        (case walkUp fs workspaceRoot (dirname startPath) of
           Some currentDir \<Rightarrow> Some (path_join currentDir [''package.json''])
         | None \<Rightarrow>
             (let rootPackageJsonPath = path_join workspaceRoot [''package.json'']
              in if pathExists fs rootPackageJsonPath then Some rootPackageJsonPath else None)))"

definition getRelevantPackageJsonPath :: "world \<Rightarrow> path \<Rightarrow> path option" where
  "getRelevantPackageJsonPath w workspaceRoot =
     (let rootPackageJson = path_join workspaceRoot [''package.json''];
          atRoot = (if pathExists (files w) rootPackageJson then Some rootPackageJson else None)
      in case activeFile w of
           None \<Rightarrow> atRoot
         | Some activeFilePath \<Rightarrow>
             (case findPackageJsonUpward (files w) workspaceRoot activeFilePath of
                Some activePackageJson \<Rightarrow> Some activePackageJson
              | None \<Rightarrow> atRoot))"

text \<open>\<^verbatim>\<open>getChildren(element?)\<close>: the roots when no element is given.\<close>

definition getChildren ::
  "world \<Rightarrow> path option \<Rightarrow> Dependency option
     \<Rightarrow> (js_error + Dependency list) \<times> effect list" where
  "getChildren w workspaceRoot element =
     (case workspaceRoot of
        None \<Rightarrow> (Inr [], [ShowInfo ''No dependency in empty workspace''])
      | Some root \<Rightarrow>
          (case element of
             Some el \<Rightarrow>
               (getDepsInPackageJson (files w) workspaceRoot
                  (path_join root [''node_modules'', label el, ''package.json'']), [])
           | None \<Rightarrow>
               (case getRelevantPackageJsonPath w root of
                  Some packageJsonPath \<Rightarrow>
                    (getDepsInPackageJson (files w) workspaceRoot packageJsonPath, [])
                | None \<Rightarrow> (Inr [], [ShowInfo ''No package.json found in current context'']))))"

section \<open>Locating a package's manifest (views/node-dependencies.ts)\<close>

text \<open>
  \<^verbatim>\<open>readFileAsJson(filePath)\<close>: every failure is caught and gives \<^verbatim>\<open>null\<close>.
\<close>

definition readFileAsJson :: "filesystem \<Rightarrow> path \<Rightarrow> json" where
  "readFileAsJson fs filePath = (case readJson fs filePath of Inl e \<Rightarrow> JNull | Inr v \<Rightarrow> v)"

text \<open>\<^verbatim>\<open>packageInfo && packageInfo.name === moduleName\<close>.\<close>

definition nameMatches :: "json \<Rightarrow> string \<Rightarrow> bool" where
  "nameMatches packageInfo moduleName =
     (truthy (Some packageInfo) \<and> get_prop packageInfo ''name'' = Some (JStr moduleName))"

text \<open>
  \<^verbatim>\<open>findPackageJson(moduleName, startDir)\<close>. \<open>registry moduleName\<close> is what the awaited
  \<^verbatim>\<open>NpmApiService.getPackageInfo(moduleName)\<close> resolves to (\<^verbatim>\<open>null\<close> when the lookup
  fails: that function catches everything). The result is the manifest or \<^verbatim>\<open>null\<close>
  (\<open>JNull\<close>); no step can throw.
\<close>

definition findPackageJson ::
  "filesystem \<Rightarrow> path option \<Rightarrow> (string \<Rightarrow> json) \<Rightarrow> string \<Rightarrow> path \<Rightarrow> json \<times> effect list" where
  "findPackageJson fs workspaceRoot registry moduleName startDir =
     (let currentPackageJson = path_join startDir [''package.json''];
          nodeModulesPath = path_resolve startDir [''..'', ''package.json'']
      in if pathExists fs currentPackageJson
            \<and> nameMatches (readFileAsJson fs currentPackageJson) moduleName
         then (readFileAsJson fs currentPackageJson, [])
         else if pathExists fs nodeModulesPath
            \<and> nameMatches (readFileAsJson fs nodeModulesPath) moduleName
         then (readFileAsJson fs nodeModulesPath, [])
         else
           (case workspaceRoot of
              None \<Rightarrow> (registry moduleName, [RegistryLookup moduleName])
            | Some root \<Rightarrow>
                (let rootNodeModulesPath =
                       path_resolve root [''node_modules'', moduleName, ''package.json'']
                 in if pathExists fs rootNodeModulesPath
                    then (readFileAsJson fs rootNodeModulesPath, [])
                    else (registry moduleName, [RegistryLookup moduleName]))))"

text \<open>
  \<^verbatim>\<open>resolvePackageDir(moduleName, dir)\<close>. \<open>resolve moduleName dir\<close> is the entry file
  \<^verbatim>\<open>require.resolve(moduleName, { paths: [dir] })\<close> finds, \<open>None\<close> when it throws.
\<close>

definition resolvePackageDir ::
  "filesystem \<Rightarrow> (string \<Rightarrow> path \<Rightarrow> path option) \<Rightarrow> string \<Rightarrow> path
     \<Rightarrow> path option \<times> effect list" where
  "resolvePackageDir fs resolve moduleName dir =
     (if str_includes moduleName ''@types/'' then (None, [])
      else
        (case resolve moduleName dir of
           None \<Rightarrow> (None, [Resolve moduleName dir])
         | Some entry \<Rightarrow>
             (if pathExists fs (dirname entry) then Some (dirname entry) else None,
              [Resolve moduleName dir])))"

text \<open>\<^verbatim>\<open>getPackageJsonFromPath(moduleName, dir)\<close>, which \<^verbatim>\<open>getLocalPackageInfo\<close> returns.\<close>

definition getPackageJsonFromPath ::
  "filesystem \<Rightarrow> path option \<Rightarrow> (string \<Rightarrow> path \<Rightarrow> path option) \<Rightarrow> (string \<Rightarrow> json)
     \<Rightarrow> string \<Rightarrow> path \<Rightarrow> json \<times> effect list" where
  "getPackageJsonFromPath fs workspaceRoot resolve registry moduleName dir =
     (let (pkgDir, probeFx) = resolvePackageDir fs resolve moduleName dir;
          (packageInfo, findFx) =
            (case pkgDir of
               Some found \<Rightarrow> findPackageJson fs workspaceRoot registry moduleName found
             | None \<Rightarrow> findPackageJson fs workspaceRoot registry moduleName dir)
      in (packageInfo, probeFx @ findFx))"

text \<open>
  \<^verbatim>\<open>DepNodeProvider.detectPackageManager(workspaceRoot)\<close>: the manifest is read with
  \<^verbatim>\<open>readFileAsJson\<close>, there is no probe for executables.
\<close>

definition treeDetectPackageManager :: "filesystem \<Rightarrow> path \<Rightarrow> PackageManager" where
  "treeDetectPackageManager fs workspaceRoot =
     (let packageJsonPath = path_join workspaceRoot [''package.json''];
          step1 = (if pathExists fs packageJsonPath
                   then packageManagerField (readFileAsJson fs packageJsonPath)
                   else Inr None)
      in case step1 of
           Inl e \<Rightarrow> Npm
         | Inr (Some manager) \<Rightarrow> manager
         | Inr None \<Rightarrow>
             (case firstLockFile fs workspaceRoot lockFiles of
                Some manager \<Rightarrow> manager
              | None \<Rightarrow> Npm))"

section \<open>The registry client (services/npmApiService.ts)\<close>

text \<open>
  What \<^verbatim>\<open>await fetch(url)\<close> gives: a rejection, or a response with its status and the
  value of \<^verbatim>\<open>response.json()\<close> (\<open>None\<close> when the body does not parse).
\<close>

datatype response = Rejected | Response nat "json option"

definition response_ok :: "nat \<Rightarrow> bool" where
  "response_ok status = (200 \<le> status \<and> status \<le> 299)"

text \<open>\<^verbatim>\<open>Map<string, { data, timestamp }>\<close>.\<close>

type_synonym cache = "string \<Rightarrow> (json \<times> int) option"

definition NPM_REGISTRY :: string where
  "NPM_REGISTRY = ''https://registry.npmjs.org''"

definition CACHE_DURATION :: int where
  "CACHE_DURATION = 60 * 60 * 1000"

text \<open>\<^verbatim>\<open>encodeURIComponent\<close> on the UTF-8 bytes of a string.\<close>

definition unreserved :: "char \<Rightarrow> bool" where
  "unreserved c =
     (c \<in> set ''ABCDEFGHIJKLMNOPQRSTUVWXYZabcdefghijklmnopqrstuvwxyz0123456789-_.!~*()''
      \<or> c = CHR 0x27)"

definition encodeURIComponent :: "string \<Rightarrow> string" where
  "encodeURIComponent s =
     concat (map (\<lambda>c. if unreserved c then [c]
                       else [CHR ''%'', ''0123456789ABCDEF'' ! (of_char c div 16),
                             ''0123456789ABCDEF'' ! (of_char c mod 16)]) s)"

text \<open>\<^verbatim>\<open>version ? `${packageName}@${version}` : packageName\<close>.\<close>

definition cacheKey :: "string \<Rightarrow> string option \<Rightarrow> string" where
  "cacheKey packageName ver =
     (case ver of
        None \<Rightarrow> packageName
      | Some v \<Rightarrow> if v \<noteq> [] then packageName @ ''@'' @ v else packageName)"

definition packageUrl :: "string \<Rightarrow> string option \<Rightarrow> string" where
  "packageUrl packageName ver =
     NPM_REGISTRY @ ''/'' @ encodeURIComponent packageName
     @ (case ver of
          None \<Rightarrow> []
        | Some v \<Rightarrow> if v \<noteq> [] then ''/'' @ encodeURIComponent v else [])"

text \<open>
  The part of \<^verbatim>\<open>getPackageInfo\<close> after the cache check: the request, and the store on
  success with the time \<open>later\<close> that \<^verbatim>\<open>Date.now()\<close> then reads. Whatever is thrown is
  caught, shown and answered with \<^verbatim>\<open>null\<close>.
\<close>

definition fetchPackageInfo ::
  "(string \<Rightarrow> response) \<Rightarrow> int \<Rightarrow> cache \<Rightarrow> string \<Rightarrow> string option
     \<Rightarrow> json \<times> cache \<times> effect list" where
  "fetchPackageInfo fetch later cache packageName ver =
     (let url = packageUrl packageName ver in
      case fetch url of
        Rejected \<Rightarrow>
          (JNull, cache,
           [Fetch url, ShowErrorOf ''Failed to fetch package information: '' NetworkError])
      | Response status body \<Rightarrow>
          if \<not> response_ok status then
            (if status = 404
             then (JNull, cache,
                   [Fetch url,
                    ShowWarning (''Package '' @ [CHR 0x27] @ packageName @ [CHR 0x27]
                                 @ '' not found on npm registry'')])
             else (JNull, cache,
                   [Fetch url,
                    ShowErrorOf ''Failed to fetch package information: '' (HttpError status)]))
          else
            (case body of
               None \<Rightarrow>
                 (JNull, cache,
                  [Fetch url, ShowErrorOf ''Failed to fetch package information: '' SyntaxError])
             | Some data \<Rightarrow>
                 (data, cache(cacheKey packageName ver \<mapsto> (data, later)), [Fetch url])))"

text \<open>
  \<^verbatim>\<open>NpmApiService.getPackageInfo(packageName, version?)\<close> on the cache \<open>cache\<close>, with
  \<open>now\<close> the time \<^verbatim>\<open>Date.now()\<close> reads at the cache check. It returns the data (or
  \<^verbatim>\<open>null\<close>), the cache afterwards and what it did.
\<close>

definition getPackageInfo ::
  "(string \<Rightarrow> response) \<Rightarrow> int \<Rightarrow> int \<Rightarrow> cache \<Rightarrow> string \<Rightarrow> string option
     \<Rightarrow> json \<times> cache \<times> effect list" where
  "getPackageInfo fetch now later cache packageName ver =
     (case cache (cacheKey packageName ver) of
        Some (data, timestamp) \<Rightarrow>
          if now - timestamp < CACHE_DURATION then (data, cache, [])
          else fetchPackageInfo fetch later cache packageName ver
      | None \<Rightarrow> fetchPackageInfo fetch later cache packageName ver)"

section \<open>Observing what a run did\<close>

text \<open>The tasks among the effects of a run, in order.\<close>

definition tasksOf :: "effect list \<Rightarrow> effect list" where
  "tasksOf fx = filter (\<lambda>e. case e of RunTask cwd cmd pm \<Rightarrow> True | _ \<Rightarrow> False) fx"

section \<open>Example projects\<close>

text \<open>Concrete packages, file systems and worlds on which the properties are instantiated.\<close>

text \<open>
  A world around a file system: no shell command run by \<open>execAsync\<close> succeeds, every
  task exits with 0, the workspace folder is \<open>/proj\<close>, no editor is open, and a value
  that is not an object inherits only what \<open>Object.prototype\<close> defines.
\<close>

definition world_of :: "filesystem \<Rightarrow> world" where
  "world_of fs =
     \<lparr>files = fs, exec_ok = (\<lambda>cmd cwd. False), task_result = (\<lambda>cwd cmd. Exited 0),
      workspaceFolder = Some [''proj''], activeFile = None,
      kind_members = (\<lambda>v key. False)\<rparr>"

text \<open>
  A world around a file system whose workspace folder is \<open>/ws\<close>, with the given file
  open in the editor; the rest as above.
\<close>

definition editing :: "filesystem \<Rightarrow> path \<Rightarrow> world" where
  "editing fs file =
     \<lparr>files = fs, exec_ok = (\<lambda>cmd cwd. False), task_result = (\<lambda>cwd cmd. Exited 0),
      workspaceFolder = Some [''ws''], activeFile = Some file,
      kind_members = (\<lambda>v key. False)\<rparr>"

text \<open>
  A monorepo whose package \<open>app\<close> has \<open>react\<close> installed in its own \<open>node_modules\<close> and
  not at the workspace root; a project where \<open>node_modules/left-pad\<close> is a plain file;
  and a project with the usual flat layout, \<open>express\<close> and its dependency
  \<open>body-parser\<close> side by side at the workspace root.
\<close>

definition mono_files :: filesystem where
  "mono_files =
     map_of [([''ws'', ''package.json''], File (Some (JObj [(''name'', JStr ''workspace'')]))),
             ([''ws'', ''packages'', ''app'', ''package.json''],
              File (Some (JObj [(''name'', JStr ''app''),
                                (''dependencies'', JObj [(''react'', JStr ''^18.2.0'')])]))),
             ([''ws'', ''packages'', ''app'', ''node_modules'', ''react''], Dir),
             ([''ws'', ''packages'', ''app'', ''node_modules'', ''react'', ''package.json''],
              File (Some (JObj [(''name'', JStr ''react''), (''version'', JStr ''18.2.0'')])))]"

definition stray_file_files :: filesystem where
  "stray_file_files =
     map_of [([''ws'', ''package.json''],
              File (Some (JObj [(''name'', JStr ''app''),
                                (''dependencies'', JObj [(''left-pad'', JStr ''1.3.0'')])]))),
             ([''ws'', ''node_modules'', ''left-pad''], File None)]"

definition express_files :: filesystem where
  "express_files =
     map_of [([''ws'', ''package.json''],
              File (Some (JObj [(''name'', JStr ''app''),
                                (''dependencies'', JObj [(''express'', JStr ''^4.18.0''),
                                                         (''absent'', JStr ''1.0.0'')])]))),
             ([''ws'', ''node_modules'', ''express''], Dir),
             ([''ws'', ''node_modules'', ''express'', ''package.json''],
              File (Some (JObj [(''name'', JStr ''express''),
                                (''dependencies'', JObj [(''body-parser'', JStr ''1.20.1'')])]))),
             ([''ws'', ''node_modules'', ''body-parser''], Dir)]"

text \<open>
  A monorepo with two copies of \<open>react\<close>: version 16 installed at the workspace root,
  version 18 installed in the package \<open>app\<close>; and the two nodes that stand for them.
\<close>

definition two_react_files :: filesystem where
  "two_react_files =
     map_of [([''ws'', ''package.json''],
              File (Some (JObj [(''name'', JStr ''workspace''),
                                (''dependencies'', JObj [(''react'', JStr ''^16.14.0'')])]))),
             ([''ws'', ''node_modules'', ''react''], Dir),
             ([''ws'', ''node_modules'', ''react'', ''package.json''],
              File (Some (JObj [(''name'', JStr ''react''), (''version'', JStr ''16.14.0''),
                                (''dependencies'', JObj [(''object-assign'', JStr ''^4.1.1'')])]))),
             ([''ws'', ''packages'', ''app'', ''package.json''],
              File (Some (JObj [(''name'', JStr ''app''),
                                (''dependencies'', JObj [(''react'', JStr ''^18.2.0'')])]))),
             ([''ws'', ''packages'', ''app'', ''node_modules'', ''react''], Dir),
             ([''ws'', ''packages'', ''app'', ''node_modules'', ''react'', ''package.json''],
              File (Some (JObj [(''name'', JStr ''react''), (''version'', JStr ''18.2.0''),
                                (''dependencies'', JObj [(''loose-envify'', JStr ''^1.1.0'')])])))]"

definition app_react :: Dependency where
  "app_react = newDependency Collapsed ''react'' (Some (JStr ''^18.2.0'')) Dep
                 [''ws'', ''packages'', ''app'']"

definition root_react :: Dependency where
  "root_react = newDependency Collapsed ''react'' (Some (JStr ''^16.14.0'')) Dep [''ws'']"

text \<open>
  Another workspace: no manifest of its own, the same \<open>react\<close> manifest installed at the
  root, and in \<open>app\<close> a copy of \<open>react\<close> that depends on \<open>scheduler\<close>.
\<close>

definition lone_react_files :: filesystem where
  "lone_react_files =
     map_of [([''ws'', ''node_modules'', ''react'', ''package.json''],
              File (Some (JObj [(''name'', JStr ''react''), (''version'', JStr ''16.14.0''),
                                (''dependencies'', JObj [(''object-assign'', JStr ''^4.1.1'')])]))),
             ([''ws'', ''packages'', ''app'', ''node_modules'', ''react'', ''package.json''],
              File (Some (JObj [(''name'', JStr ''react''), (''version'', JStr ''18.2.0''),
                                (''dependencies'', JObj [(''scheduler'', JStr ''^0.23.0'')])])))]"

text \<open>
  A workspace in which \<open>react\<close> is installed with a \<open>dist\<close> directory and the directory
  \<open>node_modules/alias\<close> holds a manifest of another name; a workspace in which the
  installed manifest of \<open>left-pad\<close> does not parse; and a registry that knows \<open>left-pad\<close>.
\<close>

definition dist_files :: filesystem where
  "dist_files =
     map_of [([''ws'', ''package.json''], File (Some (JObj [(''name'', JStr ''app'')]))),
             ([''ws'', ''node_modules'', ''react'', ''package.json''],
              File (Some (JObj [(''name'', JStr ''react''), (''version'', JStr ''18.0.0'')]))),
             ([''ws'', ''node_modules'', ''react'', ''dist''], Dir),
             ([''ws'', ''node_modules'', ''alias'', ''package.json''],
              File (Some (JObj [(''name'', JStr ''real-name''), (''version'', JStr ''2.0.0'')])))]"

definition corrupt_files :: filesystem where
  "corrupt_files =
     map_of [([''ws'', ''package.json''], File (Some (JObj [(''name'', JStr ''app'')]))),
             ([''ws'', ''node_modules'', ''left-pad'', ''package.json''], File None)]"

definition ex_registry :: "string \<Rightarrow> json" where
  "ex_registry moduleName =
     (if moduleName = ''left-pad''
      then JObj [(''name'', JStr ''left-pad''), (''version'', JStr ''1.3.0'')]
      else JNull)"

text \<open>
  Three project directories, each with \<open>yarn.lock\<close>: one whose manifest names pnpm, one
  whose manifest names no manager, and one whose \<open>package.json\<close> does not parse.
\<close>

definition pnpm_field_files :: filesystem where
  "pnpm_field_files =
     map_of [([''proj'', ''package.json''],
              File (Some (JObj [(''name'', JStr ''app''), (''packageManager'', JStr ''pnpm@8.0.0'')]))),
             ([''proj'', ''yarn.lock''], File None),
             ([''proj'', ''package-lock.json''], File (Some (JObj [])))]"

definition yarn_lock_files :: filesystem where
  "yarn_lock_files =
     map_of [([''proj'', ''package.json''], File (Some (JObj [(''name'', JStr ''app'')]))),
             ([''proj'', ''yarn.lock''], File None),
             ([''proj'', ''package-lock.json''], File (Some (JObj [])))]"

definition bad_manifest_files :: filesystem where
  "bad_manifest_files =
     map_of [([''proj'', ''package.json''], File None),
             ([''proj'', ''yarn.lock''], File None)]"

definition ex_react :: IPackage where
  "ex_react = \<lparr>pkg_name = ''react'', pkg_version = ''18.0.0''\<rparr>"

text \<open>A project whose manifest names pnpm, with a file of the project open in the editor.\<close>

definition peer_files :: filesystem where
  "peer_files =
     map_of [([''ws'', ''package.json''],
              File (Some (JObj [(''name'', JStr ''app''), (''packageManager'', JStr ''pnpm@8.0.0'')])))]"

definition peer_world :: world where
  "peer_world =
     \<lparr>files = peer_files, exec_ok = (\<lambda>cmd cwd. True), task_result = (\<lambda>cwd cmd. Exited 0),
      workspaceFolder = Some [''ws''], activeFile = Some [''ws'', ''src'', ''index.ts''],
      kind_members = (\<lambda>v key. False)\<rparr>"

definition ex_lodash :: IPackage where
  "ex_lodash = \<lparr>pkg_name = ''lodash'', pkg_version = ''4.17.21''\<rparr>"




text \<open>
  A workspace with \<open>@types/node\<close> and \<open>react\<close> installed at its root, and a module
  resolution that would find an entry file for any name.
\<close>

definition types_files :: filesystem where
  "types_files =
     map_of [([''ws'', ''node_modules'', ''@types'', ''node'', ''package.json''],
              File (Some (JObj [(''name'', JStr ''@types/node''), (''version'', JStr ''20.1.0'')]))),
             ([''ws'', ''node_modules'', ''react''], Dir),
             ([''ws'', ''node_modules'', ''react'', ''package.json''],
              File (Some (JObj [(''name'', JStr ''react''), (''version'', JStr ''18.0.0'')])))]"

definition types_resolve :: "string \<Rightarrow> path \<Rightarrow> path option" where
  "types_resolve moduleName dir = Some (dir @ [''node_modules''] @ split_on CHR ''/'' moduleName @ [''index.js''])"

text \<open>
  A cache that holds \<open>left-pad\<close> since time 1000 (milliseconds), and a registry that by
  now serves a newer version of it.
\<close>

definition ttl_cache :: cache where
  "ttl_cache = [''left-pad'' \<mapsto> (JObj [(''name'', JStr ''left-pad''), (''version'', JStr ''1.2.0'')], 1000)]"

definition ttl_fetch :: "string \<Rightarrow> response" where
  "ttl_fetch url =
     (if url = ''https://registry.npmjs.org/left-pad''
      then Response 200 (Some (JObj [(''name'', JStr ''left-pad''), (''version'', JStr ''1.3.0'')]))
      else Response 404 None)"

text \<open>A registry that is down: every request is answered with status 500.\<close>

definition down_fetch :: "string \<Rightarrow> response" where
  "down_fetch url = Response 500 None"

text \<open>
  A yarn project that declares \<open>axios\<close> and its types; an npm project that declares
  \<open>lodash\<close> and, with the empty version range, its types; and a directory with no files.
\<close>

definition axios_files :: filesystem where
  "axios_files =
     map_of [([''proj'', ''package.json''],
              File (Some (JObj [(''name'', JStr ''app''),
                                (''dependencies'', JObj [(''axios'', JStr ''^1.6.0'')]),
                                (''devDependencies'', JObj [(''@types/axios'', JStr ''^0.14.0'')])]))),
             ([''proj'', ''yarn.lock''], File None)]"

definition empty_range_files :: filesystem where
  "empty_range_files =
     map_of [([''proj'', ''package.json''],
              File (Some (JObj [(''name'', JStr ''app''),
                                (''dependencies'', JObj [(''lodash'', JStr ''^4.17.21'')]),
                                (''devDependencies'', JObj [(''@types/lodash'', JStr [])])]))),
             ([''proj'', ''package-lock.json''], File (Some (JObj [])))]"

definition no_files :: filesystem where
  "no_files = (\<lambda>p. None)"

section \<open>Auxiliary lemmas\<close>

lemma path_join_package_json [simp]: "path_join p [''package.json''] = p @ [''package.json'']"
  by (simp add: path_join_def path_part_def)

lemma detect_effects:
  "snd (detectPackageManager w d) = [] \<or>
   snd (detectPackageManager w d) = [Exec ''which pnpm'' d] \<or>
   snd (detectPackageManager w d) = [Exec ''which pnpm'' d, Exec ''which yarn'' d]"
  by (simp add: detectPackageManager_def Let_def split: sum.splits option.splits)

lemma task_effects:
  "snd (executeWithTask w cwd command pm) = [RunTask cwd command pm]"
  by (simp add: executeWithTask_def split: task_outcome.splits)

lemma find_effects:
  "snd (findPackageJson fs workspaceRoot registry moduleName startDir) = []
   \<or> snd (findPackageJson fs workspaceRoot registry moduleName startDir) = [RegistryLookup moduleName]"
  by (simp add: findPackageJson_def Let_def split: option.splits)

lemma tasksOf_append [simp]: "tasksOf (xs @ ys) = tasksOf xs @ tasksOf ys"
  by (simp add: tasksOf_def)

lemma tasksOf_simps [simp]:
  "tasksOf [] = []"
  "tasksOf (RunTask cwd cmd pm # fx) = RunTask cwd cmd pm # tasksOf fx"
  "tasksOf (Exec c d # fx) = tasksOf fx"
  "tasksOf (ShowError s # fx) = tasksOf fx"
  "tasksOf (ShowErrorOf s x # fx) = tasksOf fx"
  "tasksOf (ShowInfo s # fx) = tasksOf fx"
  "tasksOf (Report n s # fx) = tasksOf fx"
  by (simp_all add: tasksOf_def)

lemma tasksOf_detect [simp]: "tasksOf (snd (detectPackageManager w d)) = []"
  using detect_effects[of w d] by auto

lemma detect_only_which:
  "set (snd (detectPackageManager w d)) \<subseteq> {Exec ''which pnpm'' d, Exec ''which yarn'' d}"
  using detect_effects[of w d] by auto

lemma toDep_fields:
  "(collapsibleState (toDep fs root dir k v t) = Collapsed)
     = pathExists fs (path_join root [''node_modules'', k])"
  "label (toDep fs root dir k v t) = k"
  "depType (toDep fs root dir k v t) = t"
  "workspaceDir (toDep fs root dir k v t) = dir"
  by (simp_all add: toDep_def newDependency_def)

lemma groupDeps_shape:
  assumes "groupDeps fs root dir packageJson g t = Inr nodes"
  shows "\<exists>ks f. nodes = map (\<lambda>dep. toDep fs root dir dep (f dep) t) ks"
proof (cases "dot_prop packageJson g")
  case (Inl e)
  with assms show ?thesis by (simp add: groupDeps_def)
next
  case (Inr v)
  show ?thesis
  proof (cases v)
    case None
    with Inr assms have "nodes = []" by (simp add: groupDeps_def)
    then show ?thesis by simp
  next
    case (Some obj)
    with Inr assms have
      "nodes = [] \<or> nodes = map (\<lambda>dep. toDep fs root dir dep (get_prop obj dep) t) (object_keys obj)"
      by (simp add: groupDeps_def split: if_splits)
    then show ?thesis
    proof
      assume "nodes = []"
      then show ?thesis by simp
    next
      assume "nodes = map (\<lambda>dep. toDep fs root dir dep (get_prop obj dep) t) (object_keys obj)"
      then show ?thesis by blast
    qed
  qed
qed

lemma groupDeps_node:
  assumes "groupDeps fs root dir packageJson g t = Inr nodes" and "node \<in> set nodes"
  shows "(collapsibleState node = Collapsed
            \<longleftrightarrow> pathExists fs (path_join root [''node_modules'', label node]))
         \<and> workspaceDir node = dir"
proof -
  from groupDeps_shape[OF assms(1)] obtain ks f where
    "nodes = map (\<lambda>dep. toDep fs root dir dep (f dep) t) ks" by blast
  with assms(2) obtain k where "node = toDep fs root dir k (f k) t" by auto
  then show ?thesis by (simp only: toDep_fields simp_thms)
qed

lemma getDeps_parts:
  assumes "getDepsInPackageJson fs (Some root) p = Inr nodes" and "nodes \<noteq> []"
  shows "\<exists>pj ps ds vs.
    groupDeps fs root (dirname p) pj ''peerDependencies'' Peer = Inr ps
    \<and> groupDeps fs root (dirname p) pj ''dependencies'' Dep = Inr ds
    \<and> groupDeps fs root (dirname p) pj ''devDependencies'' Dev = Inr vs
    \<and> nodes = ps @ ds @ vs"
proof -
  from assms have ex: "pathExists fs p"
    by (simp add: getDepsInPackageJson_def split: if_splits)
  with assms(1) obtain pj where pj: "readJson fs p = Inr pj"
    by (cases "readJson fs p") (simp_all add: getDepsInPackageJson_def)
  with ex assms(1) obtain ps where ps: "groupDeps fs root (dirname p) pj ''peerDependencies'' Peer = Inr ps"
    by (cases "groupDeps fs root (dirname p) pj ''peerDependencies'' Peer")
       (simp_all add: getDepsInPackageJson_def Let_def)
  with pj ex assms(1) obtain ds where ds: "groupDeps fs root (dirname p) pj ''dependencies'' Dep = Inr ds"
    by (cases "groupDeps fs root (dirname p) pj ''dependencies'' Dep")
       (simp_all add: getDepsInPackageJson_def Let_def)
  with ps pj ex assms(1) obtain vs where vs: "groupDeps fs root (dirname p) pj ''devDependencies'' Dev = Inr vs"
    by (cases "groupDeps fs root (dirname p) pj ''devDependencies'' Dev")
       (simp_all add: getDepsInPackageJson_def Let_def)
  with ds ps pj ex assms(1) have "nodes = ps @ ds @ vs"
    by (simp add: getDepsInPackageJson_def Let_def)
  with ps ds vs show ?thesis by blast
qed

lemma getDeps_node:
  assumes "getDepsInPackageJson fs (Some root) p = Inr nodes" and "node \<in> set nodes"
  shows "(collapsibleState node = Collapsed
            \<longleftrightarrow> pathExists fs (path_join root [''node_modules'', label node]))
         \<and> workspaceDir node = dirname p"
proof -
  from assms(2) have "nodes \<noteq> []" by auto
  from getDeps_parts[OF assms(1) this] obtain pj ps ds vs where g:
    "groupDeps fs root (dirname p) pj ''peerDependencies'' Peer = Inr ps"
    "groupDeps fs root (dirname p) pj ''dependencies'' Dep = Inr ds"
    "groupDeps fs root (dirname p) pj ''devDependencies'' Dev = Inr vs"
    "nodes = ps @ ds @ vs"
    by blast
  from assms(2) g(4) consider "node \<in> set ps" | "node \<in> set ds" | "node \<in> set vs"
    by auto
  then show ?thesis
  proof cases
    case 1
    from groupDeps_node[OF g(1) this] show ?thesis .
  next
    case 2
    from groupDeps_node[OF g(2) this] show ?thesis .
  next
    case 3
    from groupDeps_node[OF g(3) this] show ?thesis .
  qed
qed

lemma children_path:
  "getChildren w (Some root) (Some el) =
     (getDepsInPackageJson (files w) (Some root)
        (path_join root [''node_modules'', label el, ''package.json'']), [])"
  by (simp add: getChildren_def)

lemma roots_path:
  "fst (getChildren w (Some root) None) = Inr nodes \<Longrightarrow> nodes \<noteq> [] \<Longrightarrow>
     \<exists>p. getRelevantPackageJsonPath w root = Some p
       \<and> getDepsInPackageJson (files w) (Some root) p = Inr nodes"
  by (cases "getRelevantPackageJsonPath w root") (simp_all add: getChildren_def)

lemma dirname_manifest:
  "dirname (path_join p (parts @ [''package.json''])) = path_join p parts"
  by (simp add: path_join_def path_part_def dirname_def)



lemma groupDeps_absent:
  assumes "map_of props g = None"
  shows "groupDeps fs root dir (JObj props) g t = Inr []"
  using assms by (simp add: groupDeps_def dot_prop_def get_prop_def)

lemma get_prop_obj: "get_prop (JObj kvs) k = map_of kvs k"
  by (simp add: get_prop_def split: option.splits)

lemma groupDeps_entries:
  assumes "map_of props g = Some (JObj kvs)"
  shows "\<exists>nodes. groupDeps fs root dir (JObj props) g t = Inr nodes
           \<and> map (\<lambda>d. (label d, version d, depType d)) nodes
               = map (\<lambda>k. (k, map_of kvs k, t)) (key_order (map fst kvs))"
  using assms
  by (simp add: groupDeps_def dot_prop_def get_prop_obj object_keys_def toDep_def
        newDependency_def comp_def)

lemma groupDeps_listing:
  assumes "map_of props g = None \<or> (\<exists>kvs. map_of props g = Some (JObj kvs))"
  shows "\<exists>nodes. groupDeps fs root dir (JObj props) g t = Inr nodes
           \<and> map (\<lambda>d. (label d, version d, depType d)) nodes
               = (case map_of props g of
                    Some (JObj kvs) \<Rightarrow> map (\<lambda>k. (k, map_of kvs k, t)) (key_order (map fst kvs))
                  | _ \<Rightarrow> [])"
  using assms
proof
  assume "map_of props g = None"
  then show ?thesis by (simp add: groupDeps_absent)
next
  assume "\<exists>kvs. map_of props g = Some (JObj kvs)"
  then obtain kvs where k: "map_of props g = Some (JObj kvs)" by blast
  from groupDeps_entries[OF k, of fs root dir t] k show ?thesis by simp
qed

lemma groupDeps_error:
  "(groupDeps fs' root dir pj g t = Inl e) = (groupDeps fs root dir pj g t = Inl e)"
  by (simp add: groupDeps_def split: sum.splits option.splits)

lemma groupDeps_frame:
  assumes "groupDeps fs root dir pj g t = Inr nodes"
      and "\<forall>n \<in> set nodes.
             pathExists fs' (path_join root [''node_modules'', label n])
               = pathExists fs (path_join root [''node_modules'', label n])"
  shows "groupDeps fs' root dir pj g t = Inr nodes"
proof (cases "dot_prop pj g")
  case (Inl e)
  with assms(1) show ?thesis by (simp add: groupDeps_def)
next
  case (Inr v)
  show ?thesis
  proof (cases "truthy v")
    case False
    with Inr assms(1) show ?thesis by (simp add: groupDeps_def)
  next
    case True
    show ?thesis
    proof (cases v)
      case None
      with Inr True assms(1) show ?thesis by (simp add: groupDeps_def)
    next
      case (Some obj)
      with Inr True assms(1) have n:
        "nodes = map (\<lambda>dep. toDep fs root dir dep (get_prop obj dep) t) (object_keys obj)"
        by (simp add: groupDeps_def)
      have "toDep fs' root dir k (get_prop obj k) t = toDep fs root dir k (get_prop obj k) t"
        if "k \<in> set (object_keys obj)" for k
      proof -
        from that n have "toDep fs root dir k (get_prop obj k) t \<in> set nodes" by simp
        with assms(2) have
          "pathExists fs' (path_join root [''node_modules'', k])
             = pathExists fs (path_join root [''node_modules'', k])"
          by (metis toDep_fields(2))
        then show ?thesis by (simp add: toDep_def)
      qed
      then have "map (\<lambda>dep. toDep fs' root dir dep (get_prop obj dep) t) (object_keys obj) = nodes"
        using n by simp
      with Inr True Some show ?thesis by (simp add: groupDeps_def)
    qed
  qed
qed

lemma getDeps_frame:
  assumes same: "fs' p = fs p"
      and ex: "\<forall>nodes n. getDepsInPackageJson fs (Some root) p = Inr nodes \<and> n \<in> set nodes \<longrightarrow>
             pathExists fs' (path_join root [''node_modules'', label n])
               = pathExists fs (path_join root [''node_modules'', label n])"
  shows "getDepsInPackageJson fs' (Some root) p = getDepsInPackageJson fs (Some root) p"
proof (cases "pathExists fs p")
  case False
  with same show ?thesis by (simp add: getDepsInPackageJson_def pathExists_def)
next
  case True
  with same have True': "pathExists fs' p" by (simp add: pathExists_def)
  from same have rj: "readJson fs' p = readJson fs p" by (simp add: readJson_def)
  show ?thesis
  proof (cases "readJson fs p")
    case (Inl e)
    with rj True True' show ?thesis by (simp add: getDepsInPackageJson_def)
  next
    case (Inr pj)
    let ?G = "\<lambda>f g t. groupDeps f root (dirname p) pj g t"
    have unf: "getDepsInPackageJson f (Some root) p =
        (case ?G f ''peerDependencies'' Peer of
           Inl e \<Rightarrow> Inl e
         | Inr peerDeps \<Rightarrow>
             (case ?G f ''dependencies'' Dep of
                Inl e \<Rightarrow> Inl e
              | Inr deps \<Rightarrow>
                  (case ?G f ''devDependencies'' Dev of
                     Inl e \<Rightarrow> Inl e
                   | Inr devDeps \<Rightarrow> Inr (peerDeps @ deps @ devDeps))))"
      if "pathExists f p" and "readJson f p = Inr pj" for f
      using that by (simp add: getDepsInPackageJson_def Let_def)
    note u = unf[OF True Inr] unf[OF True' rj[unfolded Inr]]
    show ?thesis
    proof (cases "?G fs ''peerDependencies'' Peer")
      case (Inl e)
      then have "?G fs' ''peerDependencies'' Peer = Inl e" by (simp add: groupDeps_error[where fs'=fs' and fs=fs])
      with Inl u show ?thesis by simp
    next
      case ps: (Inr ps)
      obtain ps' where ps': "?G fs' ''peerDependencies'' Peer = Inr ps'"
        using ps groupDeps_error[where fs'=fs' and fs=fs]
        by (cases "?G fs' ''peerDependencies'' Peer") auto
      show ?thesis
      proof (cases "?G fs ''dependencies'' Dep")
        case (Inl e)
        then have "?G fs' ''dependencies'' Dep = Inl e" by (simp add: groupDeps_error[where fs'=fs' and fs=fs])
        with Inl ps ps' u show ?thesis by simp
      next
        case ds: (Inr ds)
        obtain ds' where ds': "?G fs' ''dependencies'' Dep = Inr ds'"
          using ds groupDeps_error[where fs'=fs' and fs=fs]
          by (cases "?G fs' ''dependencies'' Dep") auto
        show ?thesis
        proof (cases "?G fs ''devDependencies'' Dev")
          case (Inl e)
          then have "?G fs' ''devDependencies'' Dev = Inl e" by (simp add: groupDeps_error[where fs'=fs' and fs=fs])
          with Inl ps ps' ds ds' u show ?thesis by simp
        next
          case vs: (Inr vs)
          from ps ds vs u(1) have r: "getDepsInPackageJson fs (Some root) p = Inr (ps @ ds @ vs)"
            by simp
          with ex have all: "\<forall>n \<in> set (ps @ ds @ vs).
             pathExists fs' (path_join root [''node_modules'', label n])
               = pathExists fs (path_join root [''node_modules'', label n])"
            by blast
          have "?G fs' ''peerDependencies'' Peer = Inr ps"
            by (rule groupDeps_frame[OF ps]) (use all in simp)
          moreover have "?G fs' ''dependencies'' Dep = Inr ds"
            by (rule groupDeps_frame[OF ds]) (use all in simp)
          moreover have "?G fs' ''devDependencies'' Dev = Inr vs"
            by (rule groupDeps_frame[OF vs]) (use all in simp)
          ultimately show ?thesis using r u(2) by simp
        qed
      qed
    qed
  qed
qed

lemma getDeps_listing:
  assumes "fs p = Some (File (Some (JObj props)))"
      and "\<forall>g \<in> {''peerDependencies'', ''dependencies'', ''devDependencies''}.
             map_of props g = None \<or> (\<exists>kvs. map_of props g = Some (JObj kvs))"
  shows "\<exists>nodes. getDepsInPackageJson fs (Some root) p = Inr nodes
           \<and> map (\<lambda>d. (label d, version d, depType d)) nodes
               = concat (map (\<lambda>(g, t). case map_of props g of
                                 Some (JObj kvs) \<Rightarrow>
                                   map (\<lambda>k. (k, map_of kvs k, t)) (key_order (map fst kvs))
                               | _ \<Rightarrow> [])
                           [(''peerDependencies'', Peer), (''dependencies'', Dep),
                            (''devDependencies'', Dev)])"
proof -
  let ?fields = "\<lambda>d. (label d, version d, depType d)"
  let ?want = "\<lambda>g t. case map_of props g of
                   Some (JObj kvs) \<Rightarrow> map (\<lambda>k. (k, map_of kvs k, t)) (key_order (map fst kvs))
                 | _ \<Rightarrow> []"
  from assms(2) have a:
    "map_of props ''peerDependencies'' = None \<or> (\<exists>kvs. map_of props ''peerDependencies'' = Some (JObj kvs))"
    "map_of props ''dependencies'' = None \<or> (\<exists>kvs. map_of props ''dependencies'' = Some (JObj kvs))"
    "map_of props ''devDependencies'' = None \<or> (\<exists>kvs. map_of props ''devDependencies'' = Some (JObj kvs))"
    by simp_all
  obtain ps where ps: "groupDeps fs root (dirname p) (JObj props) ''peerDependencies'' Peer = Inr ps"
      "map ?fields ps = ?want ''peerDependencies'' Peer"
    using groupDeps_listing[OF a(1)] by blast
  obtain ds where ds: "groupDeps fs root (dirname p) (JObj props) ''dependencies'' Dep = Inr ds"
      "map ?fields ds = ?want ''dependencies'' Dep"
    using groupDeps_listing[OF a(2)] by blast
  obtain vs where vs: "groupDeps fs root (dirname p) (JObj props) ''devDependencies'' Dev = Inr vs"
      "map ?fields vs = ?want ''devDependencies'' Dev"
    using groupDeps_listing[OF a(3)] by blast
  have "getDepsInPackageJson fs (Some root) p = Inr (ps @ ds @ vs)"
    using assms(1) ps(1) ds(1) vs(1)
    by (simp add: getDepsInPackageJson_def pathExists_def readJson_def)
  moreover have "map ?fields (ps @ ds @ vs)
      = ?want ''peerDependencies'' Peer @ ?want ''dependencies'' Dep @ ?want ''devDependencies'' Dev"
    using ps(2) ds(2) vs(2) by simp
  ultimately show ?thesis by simp
qed

lemma accepts_iff:
  "(pathExists fs p \<and> nameMatches (readFileAsJson fs p) m)
     \<longleftrightarrow> (\<exists>info. fs p = Some (File (Some info)) \<and> nameMatches info m)"
  by (auto simp: pathExists_def readFileAsJson_def readJson_def nameMatches_def
        split: option.splits entry.splits)

lemma accepted_value:
  "fs p = Some (File (Some info)) \<Longrightarrow> readFileAsJson fs p = info"
  by (simp add: readFileAsJson_def readJson_def)

lemma nameMatches_not_null: "nameMatches info m \<Longrightarrow> info \<noteq> JNull"
  by (auto simp: nameMatches_def)

lemma split_on_nonempty: "split_on c s \<noteq> []"
  by (induction s) (auto split: list.splits)

lemma split_on_first: "split_on c s = x # xs \<Longrightarrow> x = takeWhile (\<lambda>a. a \<noteq> c) s"
  by (induction s arbitrary: x xs) (auto simp: split_on_nonempty split: if_splits list.splits)

lemma field_pnpm:
  assumes "get_prop pj ''packageManager'' = Some (JStr v)"
      and "takeWhile (\<lambda>c. c \<noteq> CHR ''@'') v = ''pnpm''"
  shows "packageManagerField pj = Inr (Some Pnpm)"
proof -
  from assms(1) have nn: "pj \<noteq> JNull"
    by (auto simp: get_prop_def)
  from assms(2) have ne: "v \<noteq> []"
    by auto
  obtain x xs where sp: "split_on CHR ''@'' v = x # xs"
    using split_on_nonempty[of "CHR ''@''" v] by (cases "split_on CHR ''@'' v") auto
  with assms(2) have "x = ''pnpm''"
    using split_on_first[OF sp] by simp
  with nn ne sp assms(1) show ?thesis
    by (cases pj) (simp_all add: packageManagerField_def dot_prop_def recognised_def)
qed

lemma field_absent:
  assumes "get_prop pj ''packageManager'' = None" and "pj \<noteq> JNull"
  shows "packageManagerField pj = Inr None"
  using assms by (cases pj) (simp_all add: packageManagerField_def dot_prop_def)

lemma lock_priority:
  "firstLockFile fs d lockFiles =
     (if pathExists fs (path_join d [''pnpm-lock.yaml'']) then Some Pnpm
      else if pathExists fs (path_join d [''yarn.lock'']) then Some Yarn
      else if pathExists fs (path_join d [''package-lock.json'']) then Some Npm
      else None)"
  by (simp add: lockFiles_def)

lemma detect_of_field:
  assumes "files w (path_join d [''package.json'']) = Some (File (Some pj))"
      and "packageManagerField pj = Inr (Some m)"
  shows "detectPackageManager w d = (m, [])" and "treeDetectPackageManager (files w) d = m"
  using assms
  by (simp_all add: detectPackageManager_def treeDetectPackageManager_def pathExists_def
        readJson_def readFileAsJson_def)

lemma detect_no_field:
  assumes "files w (path_join d [''package.json'']) = None
           \<or> (\<exists>pj. files w (path_join d [''package.json'']) = Some (File (Some pj))
                 \<and> pj \<noteq> JNull \<and> get_prop pj ''packageManager'' = None)"
  shows "detectPackageManager w d =
           (case firstLockFile (files w) d lockFiles of
              Some m \<Rightarrow> (m, [])
            | None \<Rightarrow>
                if exec_ok w ''which pnpm'' d then (Pnpm, [Exec ''which pnpm'' d])
                else if exec_ok w ''which yarn'' d
                then (Yarn, [Exec ''which pnpm'' d, Exec ''which yarn'' d])
                else (Npm, [Exec ''which pnpm'' d, Exec ''which yarn'' d]))"
    and "treeDetectPackageManager (files w) d =
           (case firstLockFile (files w) d lockFiles of Some m \<Rightarrow> m | None \<Rightarrow> Npm)"
  using assms
  by (auto simp: detectPackageManager_def treeDetectPackageManager_def pathExists_def
        readJson_def readFileAsJson_def field_absent simp del: path_join_package_json)

lemma peer_command:
  "buildInstallCommand pm pkg ''--save-peer'' includeTypes =
     (case pm of Npm \<Rightarrow> ''npm install --save-peer '' | Pnpm \<Rightarrow> ''pnpm add -P ''
      | Yarn \<Rightarrow> ''yarn add -P '') @ pkg_name pkg @ ''@'' @ pkg_version pkg"
  by (cases pm) (simp_all add: buildInstallCommand_def mainInstallCommand_def)

text \<open>Everything a peer install does, by kind.\<close>

lemma install_peer_effects:
  assumes "e \<in> set (installPackage w pkg ''--save-peer'')"
  shows "(\<exists>cwd. e = Exec ''which pnpm'' cwd) \<or> (\<exists>cwd. e = Exec ''which yarn'' cwd)
         \<or> (\<exists>cwd m. e = RunTask cwd (buildInstallCommand m pkg ''--save-peer'' True) m)
         \<or> (\<exists>n s. e = Report n s) \<or> (\<exists>s. e = ShowError s) \<or> (\<exists>s x. e = ShowErrorOf s x)
         \<or> (\<exists>s. e = ShowInfo s)"
proof (cases "getPackageDirectory w")
  case None
  with assms show ?thesis by (simp add: installPackage_def)
next
  case (Some d)
  obtain pm fx where det: "detectPackageManager w d = (pm, fx)"
    by (cases "detectPackageManager w d")
  obtain ran tfx where
    run: "executeWithTask w d (buildInstallCommand pm pkg ''--save-peer'' False) pm = (ran, tfx)"
    by (cases "executeWithTask w d (buildInstallCommand pm pkg ''--save-peer'' False) pm")
  have tfx: "tfx = [RunTask d (buildInstallCommand pm pkg ''--save-peer'' True) pm]"
    using task_effects[of w d "buildInstallCommand pm pkg ''--save-peer'' False" pm] run
    by (simp add: peer_command)
  have fx: "fx = [] \<or> fx = [Exec ''which pnpm'' d]
            \<or> fx = [Exec ''which pnpm'' d, Exec ''which yarn'' d]"
    using detect_effects[of w d] det by simp
  from assms Some det run tfx fx show ?thesis
    by (cases ran) (auto simp: installPackage_def)
qed

lemma peer_world_run:
  "installPackage peer_world ex_react ''--save-peer'' =
     [Report 0 ''Detected package manager: pnpm'',
      Report 20 ''Installing react...'',
      RunTask [''ws''] ''pnpm add -P react@18.0.0'' Pnpm,
      Report 70 ''Package installed successfully'',
      ShowInfo ''Successfully installed react@18.0.0 (--save-peer) using pnpm'']"
  by code_simp



lemma prefix_includes: "prefix sub s \<Longrightarrow> str_includes s sub"
  by (cases s) auto

lemma fetch_effects_hd:
  "\<exists>rest. snd (snd (fetchPackageInfo fetch later cache packageName ver))
     = Fetch (packageUrl packageName ver) # rest"
  by (simp add: fetchPackageInfo_def Let_def split: response.splits option.splits)

lemma fetch_success:
  assumes "fetch (packageUrl packageName ver) = Response status (Some fresh)"
      and "response_ok status"
  shows "fetchPackageInfo fetch later cache packageName ver
     = (fresh, cache(cacheKey packageName ver \<mapsto> (fresh, later)), [Fetch (packageUrl packageName ver)])"
  using assms by (simp add: fetchPackageInfo_def Let_def)

lemma ttl_url: "packageUrl ''left-pad'' None = ''https://registry.npmjs.org/left-pad''"
  by (simp add: packageUrl_def NPM_REGISTRY_def encodeURIComponent_def unreserved_def)

lemma fetch_failure:
  assumes "fetch (packageUrl packageName ver) = Rejected
           \<or> (\<exists>status body. fetch (packageUrl packageName ver) = Response status body
                 \<and> (\<not> response_ok status \<or> body = None))"
  shows "fst (fetchPackageInfo fetch later cache packageName ver) = JNull
         \<and> fst (snd (fetchPackageInfo fetch later cache packageName ver)) = cache"
  using assms by (auto simp: fetchPackageInfo_def Let_def)

lemma remove_absent:
  assumes "files w (path_join dir [''package.json'']) = None"
  shows "removePackage w packageName dir =
           (Inr (), snd (detectPackageManager w dir)
                    @ [ShowError ''No package.json found in dir ${workspaceRoot}''])"
  using assms
  by (simp add: removePackage_def pathExists_def Let_def split: prod.splits)

lemma remove_unreadable:
  assumes "files w (path_join dir [''package.json'']) \<noteq> None"
      and "readJson (files w) (path_join dir [''package.json'']) = Inl err"
  shows "removePackage w packageName dir =
           (Inl err, snd (detectPackageManager w dir)
                     @ [ShowErrorOf ''Failed to remove package: '' err])"
  using assms
  by (auto simp: removePackage_def pathExists_def Let_def split: prod.splits)

lemma remove_undeclared:
  assumes "files w (path_join dir [''package.json'']) = Some (File (Some pkg))"
      and "\<not> truthy_val (declaredIn w pkg ''dependencies'' packageName)"
      and "\<not> truthy_val (declaredIn w pkg ''devDependencies'' packageName)"
      and "\<not> truthy_val (declaredIn w pkg ''peerDependencies'' packageName)"
  shows "removePackage w packageName dir =
           (Inr (), snd (detectPackageManager w dir)
                    @ [ShowError (''Package '' @ packageName
                         @ '' not found in package.json in dir '' @ render dir)])"
  using assms
  by (simp add: removePackage_def pathExists_def readJson_def Let_def split: prod.splits)

lemma remove_declared_tasks:
  assumes "files w (path_join dir [''package.json'']) = Some (File (Some pkg))"
      and "truthy_val (declaredIn w pkg ''dependencies'' packageName)
           \<or> truthy_val (declaredIn w pkg ''devDependencies'' packageName)
           \<or> truthy_val (declaredIn w pkg ''peerDependencies'' packageName)"
  shows "tasksOf (snd (removePackage w packageName dir)) =
           [RunTask dir
              (buildRemoveCommand (fst (detectPackageManager w dir)) packageName
                 (truthy_val (declaredIn w pkg ''devDependencies'' (''@types/'' @ packageName))
                  \<or> truthy_val (declaredIn w pkg ''peerDependencies'' (''@types/'' @ packageName))
                  \<or> truthy_val (declaredIn w pkg ''dependencies'' (''@types/'' @ packageName))))
              (fst (detectPackageManager w dir))]"
proof -
  obtain pm fx where det: "detectPackageManager w dir = (pm, fx)"
    by (cases "detectPackageManager w dir")
  let ?has = "truthy_val (declaredIn w pkg ''devDependencies'' (''@types/'' @ packageName))
                  \<or> truthy_val (declaredIn w pkg ''peerDependencies'' (''@types/'' @ packageName))
                  \<or> truthy_val (declaredIn w pkg ''dependencies'' (''@types/'' @ packageName))"
  obtain ran tfx where run:
    "executeWithTask w dir (buildRemoveCommand pm packageName ?has) pm = (ran, tfx)"
    by (cases "executeWithTask w dir (buildRemoveCommand pm packageName ?has) pm")
  have tfx: "tfx = [RunTask dir (buildRemoveCommand pm packageName ?has) pm]"
    using task_effects[of w dir "buildRemoveCommand pm packageName ?has" pm] run by simp
  have fx: "tasksOf fx = []"
    using tasksOf_detect[of w dir] det by simp
  from assms det run tfx fx show ?thesis
    by (cases ran)
       (simp_all add: removePackage_def pathExists_def readJson_def Let_def
          del: path_join_package_json)
qed

lemma not_declared:
  assumes "packageName \<notin> set objectPrototype"
      and "opt_prop (Some pkg) depGroup = None
           \<or> (\<exists>kvs. opt_prop (Some pkg) depGroup = Some (JObj kvs) \<and> map_of kvs packageName = None)"
  shows "declaredIn w pkg depGroup packageName = Undefined"
  using assms
  by (auto simp: declaredIn_def read_prop_def get_prop_def inherited_def)

section \<open>Verified properties\<close>

subsection \<open>C1: a node is expandable when the package is installed under the workspace root\<close>

text \<open>
  C1, as stated, fails: the installed check is made under the workspace root, not under
  the directory of the declaring manifest, and it accepts any kind of entry. In the flat
  layout the child \<open>body-parser\<close> of \<open>express\<close> is expandable although
  \<open>express/node_modules/body-parser\<close> does not exist; in the monorepo the root \<open>react\<close> of
  package \<open>app\<close> is a leaf although \<open>app/node_modules/react\<close> is a directory; and
  \<open>left-pad\<close> is expandable although \<open>node_modules/left-pad\<close> is a plain file.
\<close>

theorem C1_counterexample:
  "express_files [''ws'', ''node_modules'', ''express'', ''node_modules'', ''body-parser''] = None
   \<and> fst (getChildren (editing express_files [''ws'', ''index.js'']) (Some [''ws''])
             (Some (newDependency Collapsed ''express'' (Some (JStr ''^4.18.0'')) Dep [''ws''])))
       = Inr [newDependency Collapsed ''body-parser'' (Some (JStr ''1.20.1'')) Dep
                [''ws'', ''node_modules'', ''express'']]
   \<and> mono_files [''ws'', ''packages'', ''app'', ''node_modules'', ''react''] = Some Dir
   \<and> fst (getChildren (editing mono_files [''ws'', ''packages'', ''app'', ''src'', ''index.ts''])
            (Some [''ws'']) None)
       = Inr [newDependency StateNone ''react'' (Some (JStr ''^18.2.0'')) Dep
                [''ws'', ''packages'', ''app'']]
   \<and> stray_file_files [''ws'', ''node_modules'', ''left-pad''] = Some (File None)
   \<and> fst (getChildren (editing stray_file_files [''ws'', ''index.js'']) (Some [''ws'']) None)
       = Inr [newDependency Collapsed ''left-pad'' (Some (JStr ''1.3.0'')) Dep [''ws'']]"
  by code_simp

text \<open>
  C1, amended. Every node \<open>getChildren\<close> emits, root or child, is expandable
  (\<open>Collapsed\<close>) if and only if \<open>node_modules/<name>\<close> exists under the provider's
  workspace root, as any kind of entry; otherwise it is a leaf.
\<close>

theorem C1_installed_under_workspace_root:
  assumes "fst (getChildren w (Some root) element) = Inr nodes" and "node \<in> set nodes"
  shows "collapsibleState node = Collapsed
           \<longleftrightarrow> pathExists (files w) (path_join root [''node_modules'', label node])"
proof (cases element)
  case (Some el)
  with assms(1) have "getDepsInPackageJson (files w) (Some root)
        (path_join root [''node_modules'', label el, ''package.json'']) = Inr nodes"
    by (simp add: children_path)
  from getDeps_node[OF this assms(2)] show ?thesis by simp
next
  case None
  from assms(2) have "nodes \<noteq> []" by auto
  with assms(1) None obtain p where
    "getDepsInPackageJson (files w) (Some root) p = Inr nodes"
    using roots_path by blast
  from getDeps_node[OF this assms(2)] show ?thesis by simp
qed

text \<open>
  In the flat layout the root \<open>express\<close> and its child \<open>body-parser\<close> are expandable and
  the root \<open>absent\<close>, not installed, is a leaf.
\<close>

theorem C1_witness:
  "fst (getChildren (editing express_files [''ws'', ''index.js'']) (Some [''ws'']) None)
     = Inr [newDependency Collapsed ''express'' (Some (JStr ''^4.18.0'')) Dep [''ws''],
            newDependency StateNone ''absent'' (Some (JStr ''1.0.0'')) Dep [''ws'']]
   \<and> pathExists express_files [''ws'', ''node_modules'', ''express'']
   \<and> \<not> pathExists express_files [''ws'', ''node_modules'', ''absent'']
   \<and> fst (getChildren (editing express_files [''ws'', ''index.js'']) (Some [''ws''])
             (Some (newDependency Collapsed ''express'' (Some (JStr ''^4.18.0'')) Dep [''ws''])))
     = Inr [newDependency Collapsed ''body-parser'' (Some (JStr ''1.20.1'')) Dep
              [''ws'', ''node_modules'', ''express'']]
   \<and> pathExists express_files [''ws'', ''node_modules'', ''body-parser'']"
proof -
  let ?w = "editing express_files [''ws'', ''index.js'']"
  let ?express = "newDependency Collapsed ''express'' (Some (JStr ''^4.18.0'')) Dep [''ws'']"
  let ?absent = "newDependency StateNone ''absent'' (Some (JStr ''1.0.0'')) Dep [''ws'']"
  let ?body = "newDependency Collapsed ''body-parser'' (Some (JStr ''1.20.1'')) Dep
              [''ws'', ''node_modules'', ''express'']"
  have roots: "fst (getChildren ?w (Some [''ws'']) None) = Inr [?express, ?absent]"
    by code_simp
  have kids: "fst (getChildren ?w (Some [''ws'']) (Some ?express)) = Inr [?body]"
    by code_simp
  have f: "files ?w = express_files"
    by (simp add: editing_def)
  have p: "path_join [''ws''] [''node_modules'', ''express''] = [''ws'', ''node_modules'', ''express'']"
    "path_join [''ws''] [''node_modules'', ''absent''] = [''ws'', ''node_modules'', ''absent'']"
    "path_join [''ws''] [''node_modules'', ''body-parser''] = [''ws'', ''node_modules'', ''body-parser'']"
    by code_simp+
  have l: "label ?express = ''express''" "collapsibleState ?express = Collapsed"
    "label ?absent = ''absent''" "collapsibleState ?absent = StateNone"
    "label ?body = ''body-parser''" "collapsibleState ?body = Collapsed"
    by (simp_all add: newDependency_def)
  from C1_installed_under_workspace_root[OF roots, of ?express] l p f
  have a: "pathExists express_files [''ws'', ''node_modules'', ''express'']" by simp
  from C1_installed_under_workspace_root[OF roots, of ?absent] l p f
  have b: "\<not> pathExists express_files [''ws'', ''node_modules'', ''absent'']" by simp
  from C1_installed_under_workspace_root[OF kids, of ?body] l p f
  have c: "pathExists express_files [''ws'', ''node_modules'', ''body-parser'']" by simp
  from roots kids a b c show ?thesis by simp
qed

subsection \<open>C2: children are read from the installation under the workspace root\<close>

text \<open>
  C2, as stated, fails: \<open>getChildren\<close> joins the workspace root, not the directory that
  declared the expanded node, with \<open>node_modules\<close>. With \<open>app/src/index.ts\<close> open the
  root \<open>react\<close> is the one \<open>app\<close> declares, owned by \<open>/ws/packages/app\<close>, whose installed
  copy depends on \<open>loose-envify\<close>; expanding it lists \<open>object-assign\<close>, the dependency of
  the copy installed at the workspace root.
\<close>

theorem C2_counterexample:
  "fst (getChildren (editing two_react_files [''ws'', ''packages'', ''app'', ''src'', ''index.ts''])
          (Some [''ws'']) None) = Inr [app_react]
   \<and> workspaceDir app_react = [''ws'', ''packages'', ''app'']
   \<and> getDepsInPackageJson two_react_files (Some [''ws''])
         [''ws'', ''packages'', ''app'', ''node_modules'', ''react'', ''package.json'']
       = Inr [newDependency StateNone ''loose-envify'' (Some (JStr ''^1.1.0'')) Dep
                [''ws'', ''packages'', ''app'', ''node_modules'', ''react'']]
   \<and> fst (getChildren (editing two_react_files [''ws'', ''packages'', ''app'', ''src'', ''index.ts''])
          (Some [''ws'']) (Some app_react))
       = Inr [newDependency StateNone ''object-assign'' (Some (JStr ''^4.1.1'')) Dep
                [''ws'', ''node_modules'', ''react'']]"
  by code_simp

text \<open>
  C2, amended. For every expanded node, \<open>getChildren\<close> populates the children
  exclusively from \<open>node_modules/<label>/package.json\<close> under the provider's workspace
  root and does nothing else. The children are determined by the content of that one file
  and by which of the names it lists exist under the root's \<open>node_modules\<close>: a node of the
  same name gets the same children in any other state of the file system, editor and
  workspace that agrees on these, whatever the other manifests hold and whichever
  manifest declared the node. Without that file there are no children; when it parses to
  an object whose \<open>peerDependencies\<close>, \<open>dependencies\<close> and \<open>devDependencies\<close> are each
  absent or an object, the children are, by name, version and kind, the entries of these
  three groups, each group as \<open>Object.keys\<close> lists it. Each child is owned by that
  installed package's directory under the workspace root.
\<close>

theorem C2_children_from_workspace_root:
  "getChildren w (Some root) (Some el) =
     (getDepsInPackageJson (files w) (Some root)
        (path_join root [''node_modules'', label el, ''package.json'']), [])
   \<and> (label other = label el \<longrightarrow>
        getChildren w (Some root) (Some other) = getChildren w (Some root) (Some el))
   \<and> (\<forall>nodes node. fst (getChildren w (Some root) (Some el)) = Inr nodes \<and> node \<in> set nodes
         \<longrightarrow> workspaceDir node = path_join root [''node_modules'', label el])
   \<and> (label other = label el
        \<and> files w' (path_join root [''node_modules'', label el, ''package.json''])
            = files w (path_join root [''node_modules'', label el, ''package.json''])
        \<and> (\<forall>nodes node. fst (getChildren w (Some root) (Some el)) = Inr nodes \<and> node \<in> set nodes
              \<longrightarrow> pathExists (files w') (path_join root [''node_modules'', label node])
                    = pathExists (files w) (path_join root [''node_modules'', label node]))
        \<longrightarrow> getChildren w' (Some root) (Some other) = getChildren w (Some root) (Some el))
   \<and> (files w (path_join root [''node_modules'', label el, ''package.json'']) = None
        \<longrightarrow> getChildren w (Some root) (Some el) = (Inr [], []))
   \<and> (files w (path_join root [''node_modules'', label el, ''package.json''])
          = Some (File (Some (JObj props)))
        \<and> (\<forall>g \<in> {''peerDependencies'', ''dependencies'', ''devDependencies''}.
              map_of props g = None \<or> (\<exists>kvs. map_of props g = Some (JObj kvs)))
        \<longrightarrow> (\<exists>nodes. fst (getChildren w (Some root) (Some el)) = Inr nodes
               \<and> map (\<lambda>d. (label d, version d, depType d)) nodes
                   = concat (map (\<lambda>(g, t). case map_of props g of
                                     Some (JObj kvs) \<Rightarrow>
                                       map (\<lambda>k. (k, map_of kvs k, t)) (key_order (map fst kvs))
                                   | _ \<Rightarrow> [])
                               [(''peerDependencies'', Peer), (''dependencies'', Dep),
                                (''devDependencies'', Dev)])))"
proof (intro conjI impI allI)
  show "getChildren w (Some root) (Some el) =
     (getDepsInPackageJson (files w) (Some root)
        (path_join root [''node_modules'', label el, ''package.json'']), [])"
    by (rule children_path)
next
  assume "label other = label el"
  then show "getChildren w (Some root) (Some other) = getChildren w (Some root) (Some el)"
    by (simp add: children_path)
next
  fix nodes node
  assume a: "fst (getChildren w (Some root) (Some el)) = Inr nodes \<and> node \<in> set nodes"
  then have "getDepsInPackageJson (files w) (Some root)
        (path_join root ([''node_modules'', label el] @ [''package.json''])) = Inr nodes"
    by (simp add: children_path)
  from getDeps_node[OF this] a
  show "workspaceDir node = path_join root [''node_modules'', label el]"
    by (simp only: dirname_manifest)
next
  let ?p = "path_join root [''node_modules'', label el, ''package.json'']"
  assume a: "label other = label el
        \<and> files w' ?p = files w ?p
        \<and> (\<forall>nodes node. fst (getChildren w (Some root) (Some el)) = Inr nodes \<and> node \<in> set nodes
              \<longrightarrow> pathExists (files w') (path_join root [''node_modules'', label node])
                    = pathExists (files w) (path_join root [''node_modules'', label node]))"
  then have same: "files w' ?p = files w ?p"
    by blast
  from a have "\<forall>nodes node. getDepsInPackageJson (files w) (Some root) ?p = Inr nodes
                 \<and> node \<in> set nodes
              \<longrightarrow> pathExists (files w') (path_join root [''node_modules'', label node])
                    = pathExists (files w) (path_join root [''node_modules'', label node])"
    by (simp only: children_path fst_conv) blast
  from getDeps_frame[of "files w'" ?p "files w" root, OF same this] a
  show "getChildren w' (Some root) (Some other) = getChildren w (Some root) (Some el)"
    by (simp add: children_path)
next
  assume "files w (path_join root [''node_modules'', label el, ''package.json'']) = None"
  then show "getChildren w (Some root) (Some el) = (Inr [], [])"
    by (simp add: children_path getDepsInPackageJson_def pathExists_def)
next
  let ?p = "path_join root [''node_modules'', label el, ''package.json'']"
  assume a: "files w ?p = Some (File (Some (JObj props)))
        \<and> (\<forall>g \<in> {''peerDependencies'', ''dependencies'', ''devDependencies''}.
              map_of props g = None \<or> (\<exists>kvs. map_of props g = Some (JObj kvs)))"
  from a have f: "files w ?p = Some (File (Some (JObj props)))"
    by (rule conjunct1)
  from a have g: "\<forall>g \<in> {''peerDependencies'', ''dependencies'', ''devDependencies''}.
              map_of props g = None \<or> (\<exists>kvs. map_of props g = Some (JObj kvs))"
    by (rule conjunct2)
  from getDeps_listing[of "files w" ?p props root, OF f g]
  show "\<exists>nodes. fst (getChildren w (Some root) (Some el)) = Inr nodes
               \<and> map (\<lambda>d. (label d, version d, depType d)) nodes
                   = concat (map (\<lambda>(g, t). case map_of props g of
                                     Some (JObj kvs) \<Rightarrow>
                                       map (\<lambda>k. (k, map_of kvs k, t)) (key_order (map fst kvs))
                                   | _ \<Rightarrow> [])
                               [(''peerDependencies'', Peer), (''dependencies'', Dep),
                                (''devDependencies'', Dev)])"
    by (simp only: children_path fst_conv)
qed

text \<open>
  Expanding the workspace's own \<open>react\<close> lists \<open>object-assign\<close>, the one entry of the
  manifest installed at the root, and expanding the \<open>react\<close> that \<open>app\<close> declares gives
  the same, also in the other workspace, where \<open>app\<close>'s own copy depends on \<open>scheduler\<close>.
\<close>

theorem C2_witness:
  "fst (getChildren (editing two_react_files [''ws'', ''index.js'']) (Some [''ws'']) None)
     = Inr [root_react]
   \<and> getChildren (editing two_react_files [''ws'', ''index.js'']) (Some [''ws'']) (Some root_react)
     = (Inr [newDependency StateNone ''object-assign'' (Some (JStr ''^4.1.1'')) Dep
              [''ws'', ''node_modules'', ''react'']], [])
   \<and> getChildren (editing two_react_files [''ws'', ''index.js'']) (Some [''ws'']) (Some app_react)
     = getChildren (editing two_react_files [''ws'', ''index.js'']) (Some [''ws'']) (Some root_react)
   \<and> lone_react_files [''ws'', ''packages'', ''app'', ''node_modules'', ''react'', ''package.json'']
     = Some (File (Some (JObj [(''name'', JStr ''react''), (''version'', JStr ''18.2.0''),
                               (''dependencies'', JObj [(''scheduler'', JStr ''^0.23.0'')])])))
   \<and> getChildren (editing lone_react_files [''ws'', ''packages'', ''app'', ''src'', ''index.ts''])
        (Some [''ws'']) (Some app_react)
     = getChildren (editing two_react_files [''ws'', ''index.js'']) (Some [''ws'']) (Some root_react)
   \<and> (\<exists>nodes. fst (getChildren (editing two_react_files [''ws'', ''index.js''])
                     (Some [''ws'']) (Some root_react)) = Inr nodes
         \<and> map (\<lambda>d. (label d, version d, depType d)) nodes
             = [(''object-assign'', Some (JStr ''^4.1.1''), Dep)])"
proof -
  let ?w = "editing two_react_files [''ws'', ''index.js'']"
  let ?w' = "editing lone_react_files [''ws'', ''packages'', ''app'', ''src'', ''index.ts'']"
  let ?oa = "newDependency StateNone ''object-assign'' (Some (JStr ''^4.1.1'')) Dep
              [''ws'', ''node_modules'', ''react'']"
  let ?props = "[(''name'', JStr ''react''), (''version'', JStr ''16.14.0''),
                 (''dependencies'', JObj [(''object-assign'', JStr ''^4.1.1'')])]"
  have roots: "fst (getChildren ?w (Some [''ws'']) None) = Inr [root_react]"
    by code_simp
  have deps: "getDepsInPackageJson (files ?w) (Some [''ws''])
        (path_join [''ws''] [''node_modules'', label root_react, ''package.json''])
     = Inr [?oa]"
    by code_simp
  have same: "label app_react = label root_react"
    by (simp add: app_react_def root_react_def newDependency_def)
  have there: "files ?w (path_join [''ws''] [''node_modules'', label root_react, ''package.json''])
      = Some (File (Some (JObj ?props)))"
    by code_simp
  have there': "files ?w' (path_join [''ws''] [''node_modules'', label root_react, ''package.json''])
      = Some (File (Some (JObj ?props)))"
    by code_simp
  have oa: "pathExists (files ?w') (path_join [''ws''] [''node_modules'', label ?oa])
      = pathExists (files ?w) (path_join [''ws''] [''node_modules'', label ?oa])"
    by code_simp
  have copy: "lone_react_files [''ws'', ''packages'', ''app'', ''node_modules'', ''react'', ''package.json'']
     = Some (File (Some (JObj [(''name'', JStr ''react''), (''version'', JStr ''18.2.0''),
                               (''dependencies'', JObj [(''scheduler'', JStr ''^0.23.0'')])])))"
    by (simp add: lone_react_files_def)
  have groups: "\<forall>g \<in> {''peerDependencies'', ''dependencies'', ''devDependencies''}.
      map_of ?props g = None \<or> (\<exists>kvs. map_of ?props g = Some (JObj kvs))"
    by simp
  note inst = C2_children_from_workspace_root[of ?w "[''ws'']" root_react app_react ?w' ?props]
  from inst deps have kids: "getChildren ?w (Some [''ws'']) (Some root_react) = (Inr [?oa], [])"
    by simp
  from inst same have again: "getChildren ?w (Some [''ws'']) (Some app_react)
      = getChildren ?w (Some [''ws'']) (Some root_react)"
    by blast
  have status: "\<forall>nodes node. fst (getChildren ?w (Some [''ws'']) (Some root_react)) = Inr nodes
        \<and> node \<in> set nodes
      \<longrightarrow> pathExists (files ?w') (path_join [''ws''] [''node_modules'', label node])
            = pathExists (files ?w) (path_join [''ws''] [''node_modules'', label node])"
    using oa by (simp only: kids fst_conv) auto
  from inst same there there' status have elsewhere:
    "getChildren ?w' (Some [''ws'']) (Some app_react)
      = getChildren ?w (Some [''ws'']) (Some root_react)"
    by (simp only: simp_thms)
  from inst there groups have "\<exists>nodes. fst (getChildren ?w (Some [''ws'']) (Some root_react)) = Inr nodes
         \<and> map (\<lambda>d. (label d, version d, depType d)) nodes
             = concat (map (\<lambda>(g, t). case map_of ?props g of
                               Some (JObj kvs) \<Rightarrow>
                                 map (\<lambda>k. (k, map_of kvs k, t)) (key_order (map fst kvs))
                             | _ \<Rightarrow> [])
                         [(''peerDependencies'', Peer), (''dependencies'', Dep),
                          (''devDependencies'', Dev)])"
    by blast
  moreover have "key_order [''object-assign''] = [''object-assign'']"
    by code_simp
  ultimately have listed: "\<exists>nodes. fst (getChildren ?w (Some [''ws'']) (Some root_react)) = Inr nodes
         \<and> map (\<lambda>d. (label d, version d, depType d)) nodes
             = [(''object-assign'', Some (JStr ''^4.1.1''), Dep)]"
    by simp
  from roots kids again copy elsewhere listed show ?thesis
    by (simp only: simp_thms)
qed

subsection \<open>C3: the order of the manifest lookup\<close>

text \<open>
  C3, as stated, fails at the third step. The installed manifest under the workspace
  root is returned as \<open>readFileAsJson\<close> reads it, and that is \<open>null\<close> when the file exists
  but cannot be parsed: the lookup then answers \<open>null\<close> without asking the registry,
  although the registry knows the package.
\<close>

theorem C3_counterexample:
  "corrupt_files [''ws'', ''node_modules'', ''left-pad'', ''package.json''] = Some (File None)
   \<and> ex_registry ''left-pad'' = JObj [(''name'', JStr ''left-pad''), (''version'', JStr ''1.3.0'')]
   \<and> findPackageJson corrupt_files (Some [''ws'']) ex_registry ''left-pad'' [''ws''] = (JNull, [])"
  by code_simp

text \<open>
  C3, amended. With the workspace root defined, \<open>findPackageJson\<close> from a candidate root
  never throws and answers, first success winning: the manifest \<open>package.json\<close> of the
  candidate root if it parses and its \<open>name\<close> equals the dependency name; else the
  manifest exactly one level up under the same name match; else, if
  \<open>node_modules/<name>/package.json\<close> under the workspace root exists, whatever that file
  parses to, with no name check and without a registry lookup, and \<open>null\<close>, again
  without a registry lookup, when it is a directory or does not parse; else the result
  of the registry lookup. The answer is \<open>null\<close> only if no name matched in the first two steps
  and either the installed manifest is absent and the registry lookup gave \<open>null\<close>, or
  the installed manifest exists and does not yield a value (a directory, unparsable
  text, or the JSON value \<open>null\<close>).
\<close>

theorem C3_lookup_order:
  "let here = path_join startDir [''package.json''];
       above = path_resolve startDir [''..'', ''package.json''];
       installed = path_resolve root [''node_modules'', moduleName, ''package.json''];
       accepts = (\<lambda>p. \<exists>info. fs p = Some (File (Some info)) \<and> nameMatches info moduleName);
       found = findPackageJson fs (Some root) registry moduleName startDir
   in (\<forall>info. fs here = Some (File (Some info)) \<and> nameMatches info moduleName
          \<longrightarrow> found = (info, []))
      \<and> (\<forall>info. \<not> accepts here \<and> fs above = Some (File (Some info))
                 \<and> nameMatches info moduleName
          \<longrightarrow> found = (info, []))
      \<and> (\<forall>info. \<not> accepts here \<and> \<not> accepts above \<and> fs installed = Some (File (Some info))
          \<longrightarrow> found = (info, []))
      \<and> (\<not> accepts here \<and> \<not> accepts above
            \<and> (fs installed = Some Dir \<or> fs installed = Some (File None))
          \<longrightarrow> found = (JNull, []))
      \<and> (\<not> accepts here \<and> \<not> accepts above \<and> fs installed = None
          \<longrightarrow> found = (registry moduleName, [RegistryLookup moduleName]))
      \<and> (fst found = JNull
          \<longrightarrow> \<not> accepts here \<and> \<not> accepts above
              \<and> (fs installed = None \<and> registry moduleName = JNull
                  \<or> fs installed = Some Dir \<or> fs installed = Some (File None)
                  \<or> fs installed = Some (File (Some JNull))))"
proof -
  let ?here = "path_join startDir [''package.json'']"
  let ?above = "path_resolve startDir [''..'', ''package.json'']"
  let ?installed = "path_resolve root [''node_modules'', moduleName, ''package.json'']"
  let ?accepts = "\<lambda>p. \<exists>info. fs p = Some (File (Some info)) \<and> nameMatches info moduleName"
  let ?found = "findPackageJson fs (Some root) registry moduleName startDir"
  have unfolded: "?found =
      (if ?accepts ?here then (readFileAsJson fs ?here, [])
       else if ?accepts ?above then (readFileAsJson fs ?above, [])
       else if fs ?installed \<noteq> None then (readFileAsJson fs ?installed, [])
       else (registry moduleName, [RegistryLookup moduleName]))"
    by (simp only: findPackageJson_def Let_def option.case pathExists_def
          accepts_iff[unfolded pathExists_def])
  have s1: "?found = (info, [])"
    if "fs ?here = Some (File (Some info))" "nameMatches info moduleName" for info
    using that unfolded accepted_value[of fs ?here info] by auto
  have s2: "?found = (info, [])"
    if "\<not> ?accepts ?here" "fs ?above = Some (File (Some info))" "nameMatches info moduleName"
    for info
    using that unfolded accepted_value[of fs ?above info] by auto
  have s3: "?found = (info, [])"
    if "\<not> ?accepts ?here" "\<not> ?accepts ?above" "fs ?installed = Some (File (Some info))"
    for info
    using that unfolded accepted_value[of fs ?installed info] by auto
  have s3': "?found = (JNull, [])"
    if "\<not> ?accepts ?here" "\<not> ?accepts ?above"
      "fs ?installed = Some Dir \<or> fs ?installed = Some (File None)"
    using that unfolded by (auto simp: readFileAsJson_def readJson_def)
  have s4: "?found = (registry moduleName, [RegistryLookup moduleName])"
    if "\<not> ?accepts ?here" "\<not> ?accepts ?above" "fs ?installed = None"
    using that unfolded by auto
  have s5: "\<not> ?accepts ?here \<and> \<not> ?accepts ?above
              \<and> (fs ?installed = None \<and> registry moduleName = JNull
                  \<or> fs ?installed = Some Dir \<or> fs ?installed = Some (File None)
                  \<or> fs ?installed = Some (File (Some JNull)))"
    if null: "fst ?found = JNull"
  proof -
    have a: "\<not> ?accepts ?here"
    proof
      assume "?accepts ?here"
      then obtain info where i: "fs ?here = Some (File (Some info))" "nameMatches info moduleName"
        by blast
      from s1[OF i] null nameMatches_not_null[OF i(2)] show False by simp
    qed
    have b: "\<not> ?accepts ?above"
    proof
      assume "?accepts ?above"
      then obtain info where i: "fs ?above = Some (File (Some info))" "nameMatches info moduleName"
        by blast
      from s2[OF a i] null nameMatches_not_null[OF i(2)] show False by simp
    qed
    have c: "fs ?installed = None \<and> registry moduleName = JNull
                  \<or> fs ?installed = Some Dir \<or> fs ?installed = Some (File None)
                  \<or> fs ?installed = Some (File (Some JNull))"
    proof (cases "fs ?installed")
      case None
      with s4[OF a b] null show ?thesis by simp
    next
      case (Some e)
      show ?thesis
      proof (cases e)
        case Dir
        with Some show ?thesis by simp
      next
        case (File body)
        show ?thesis
        proof (cases body)
          case None
          with Some File show ?thesis by simp
        next
          case (Some info)
          with \<open>fs ?installed = Some e\<close> File have "fs ?installed = Some (File (Some info))"
            by simp
          with s3[OF a b this] null show ?thesis by simp
        qed
      qed
    qed
    from a b c show ?thesis by blast
  qed
  show ?thesis
    unfolding Let_def
    using s1 s2 s3 s3' s4 s5 by blast
qed

text \<open>
  From \<open>react/dist\<close> the manifest one level up is found; \<open>alias\<close> is answered with the
  installed manifest although its name differs; \<open>left-pad\<close>, not installed, comes from
  the registry.
\<close>

theorem C3_witness:
  "findPackageJson dist_files (Some [''ws'']) ex_registry ''react''
       [''ws'', ''node_modules'', ''react'', ''dist'']
     = (JObj [(''name'', JStr ''react''), (''version'', JStr ''18.0.0'')], [])
   \<and> findPackageJson dist_files (Some [''ws'']) ex_registry ''alias'' [''ws'']
     = (JObj [(''name'', JStr ''real-name''), (''version'', JStr ''2.0.0'')], [])
   \<and> findPackageJson dist_files (Some [''ws'']) ex_registry ''left-pad'' [''ws'']
     = (JObj [(''name'', JStr ''left-pad''), (''version'', JStr ''1.3.0'')],
        [RegistryLookup ''left-pad''])"
proof -
  let ?react = "JObj [(''name'', JStr ''react''), (''version'', JStr ''18.0.0'')]"
  let ?aliased = "JObj [(''name'', JStr ''real-name''), (''version'', JStr ''2.0.0'')]"
  have paths:
    "path_join [''ws'', ''node_modules'', ''react'', ''dist''] [''package.json'']
       = [''ws'', ''node_modules'', ''react'', ''dist'', ''package.json'']"
    "path_resolve [''ws'', ''node_modules'', ''react'', ''dist''] [''..'', ''package.json'']
       = [''ws'', ''node_modules'', ''react'', ''package.json'']"
    "path_join [''ws''] [''package.json''] = [''ws'', ''package.json'']"
    "path_resolve [''ws''] [''..'', ''package.json''] = [''package.json'']"
    "path_resolve [''ws''] [''node_modules'', ''alias'', ''package.json'']
       = [''ws'', ''node_modules'', ''alias'', ''package.json'']"
    "path_resolve [''ws''] [''node_modules'', ''left-pad'', ''package.json'']
       = [''ws'', ''node_modules'', ''left-pad'', ''package.json'']"
    by code_simp+
  have files:
    "dist_files [''ws'', ''node_modules'', ''react'', ''dist'', ''package.json''] = None"
    "dist_files [''ws'', ''node_modules'', ''react'', ''package.json''] = Some (File (Some ?react))"
    "dist_files [''ws'', ''package.json''] = Some (File (Some (JObj [(''name'', JStr ''app'')])))"
    "dist_files [''package.json''] = None"
    "dist_files [''ws'', ''node_modules'', ''alias'', ''package.json''] = Some (File (Some ?aliased))"
    "dist_files [''ws'', ''node_modules'', ''left-pad'', ''package.json''] = None"
    by (simp_all add: dist_files_def)
  have names:
    "nameMatches ?react ''react''"
    "\<not> nameMatches (JObj [(''name'', JStr ''app'')]) ''alias''"
    "\<not> nameMatches (JObj [(''name'', JStr ''app'')]) ''left-pad''"
    by (simp_all add: nameMatches_def get_prop_def)
  from C3_lookup_order[of "[''ws'', ''node_modules'', ''react'', ''dist'']" "[''ws'']" "''react''"
      dist_files ex_registry]
  have "findPackageJson dist_files (Some [''ws'']) ex_registry ''react''
       [''ws'', ''node_modules'', ''react'', ''dist''] = (?react, [])"
    unfolding Let_def paths using files names by simp
  moreover
  from C3_lookup_order[of "[''ws'']" "[''ws'']" "''alias''" dist_files ex_registry]
  have "findPackageJson dist_files (Some [''ws'']) ex_registry ''alias'' [''ws''] = (?aliased, [])"
    unfolding Let_def paths using files names by simp
  moreover
  from C3_lookup_order[of "[''ws'']" "[''ws'']" "''left-pad''" dist_files ex_registry]
  have "findPackageJson dist_files (Some [''ws'']) ex_registry ''left-pad'' [''ws'']
     = (ex_registry ''left-pad'', [RegistryLookup ''left-pad''])"
    unfolding Let_def paths using files names by simp
  ultimately show ?thesis
    by (simp add: ex_registry_def)
qed

subsection \<open>C4: the priority order of package-manager detection\<close>

text \<open>
  C4, as stated, fails where \<open>package.json\<close> exists but cannot be parsed: the error lands
  in the catch-all of both detectors, which answers npm without looking at the lock
  files. Here such a directory holds \<open>yarn.lock\<close> and no \<open>pnpm-lock.yaml\<close>, and both
  detectors return npm, not yarn.
\<close>

theorem C4_counterexample:
  "files (world_of bad_manifest_files) [''proj'', ''package.json''] = Some (File None)
   \<and> \<not> pathExists bad_manifest_files [''proj'', ''pnpm-lock.yaml'']
   \<and> pathExists bad_manifest_files [''proj'', ''yarn.lock'']
   \<and> detectPackageManager (world_of bad_manifest_files) [''proj''] = (Npm, [])
   \<and> treeDetectPackageManager bad_manifest_files [''proj''] = Npm"
  by code_simp

text \<open>
  C4, amended. For both detectors (\<open>detectPackageManager\<close> of the install flow and the
  tree provider's own): when the manifest parses and its \<open>packageManager\<close> field is a
  string whose part before the first \<open>@\<close> is \<open>pnpm\<close>, the answer is pnpm whatever lock
  files exist. When \<open>package.json\<close> is absent, or parses to a value other than \<open>null\<close>
  without a \<open>packageManager\<close> field, the lock files decide: \<open>pnpm-lock.yaml\<close> gives pnpm;
  otherwise \<open>yarn.lock\<close> gives yarn, also beside \<open>package-lock.json\<close>; otherwise
  \<open>package-lock.json\<close> gives npm. With none of them the tree provider answers npm, and
  the install flow answers npm when neither \<open>which pnpm\<close> nor \<open>which yarn\<close> succeeds.
  When \<open>package.json\<close> exists but is a directory, does not parse, or parses to \<open>null\<close>,
  both detectors answer npm, whatever lock files exist, and run no probe.
\<close>

theorem C4_detection_priority:
  "let manifest = files w (path_join d [''package.json'']);
       lock = (\<lambda>file. pathExists (files w) (path_join d [file]));
       noField = (manifest = None
                  \<or> (\<exists>pj. manifest = Some (File (Some pj)) \<and> pj \<noteq> JNull
                        \<and> get_prop pj ''packageManager'' = None))
   in ((\<exists>pj v. manifest = Some (File (Some pj))
              \<and> get_prop pj ''packageManager'' = Some (JStr v)
              \<and> takeWhile (\<lambda>c. c \<noteq> CHR ''@'') v = ''pnpm'')
         \<longrightarrow> detectPackageManager w d = (Pnpm, [])
             \<and> treeDetectPackageManager (files w) d = Pnpm)
      \<and> (manifest = Some Dir \<or> manifest = Some (File None)
            \<or> manifest = Some (File (Some JNull))
         \<longrightarrow> detectPackageManager w d = (Npm, [])
             \<and> treeDetectPackageManager (files w) d = Npm)
      \<and> (noField \<and> lock ''pnpm-lock.yaml''
         \<longrightarrow> detectPackageManager w d = (Pnpm, [])
             \<and> treeDetectPackageManager (files w) d = Pnpm)
      \<and> (noField \<and> \<not> lock ''pnpm-lock.yaml'' \<and> lock ''yarn.lock''
         \<longrightarrow> detectPackageManager w d = (Yarn, [])
             \<and> treeDetectPackageManager (files w) d = Yarn)
      \<and> (noField \<and> \<not> lock ''pnpm-lock.yaml'' \<and> \<not> lock ''yarn.lock''
            \<and> lock ''package-lock.json''
         \<longrightarrow> detectPackageManager w d = (Npm, [])
             \<and> treeDetectPackageManager (files w) d = Npm)
      \<and> (noField \<and> \<not> lock ''pnpm-lock.yaml'' \<and> \<not> lock ''yarn.lock''
            \<and> \<not> lock ''package-lock.json''
         \<longrightarrow> treeDetectPackageManager (files w) d = Npm
             \<and> (\<not> exec_ok w ''which pnpm'' d \<and> \<not> exec_ok w ''which yarn'' d
                  \<longrightarrow> fst (detectPackageManager w d) = Npm))"
proof -
  let ?manifest = "files w (path_join d [''package.json''])"
  let ?noField = "?manifest = None
                  \<or> (\<exists>pj. ?manifest = Some (File (Some pj)) \<and> pj \<noteq> JNull
                        \<and> get_prop pj ''packageManager'' = None)"
  have named: "detectPackageManager w d = (Pnpm, [])
             \<and> treeDetectPackageManager (files w) d = Pnpm"
    if "\<exists>pj v. ?manifest = Some (File (Some pj))
              \<and> get_prop pj ''packageManager'' = Some (JStr v)
              \<and> takeWhile (\<lambda>c. c \<noteq> CHR ''@'') v = ''pnpm''"
  proof -
    from that obtain pj v where m: "?manifest = Some (File (Some pj))"
      and f: "get_prop pj ''packageManager'' = Some (JStr v)"
      and p: "takeWhile (\<lambda>c. c \<noteq> CHR ''@'') v = ''pnpm''"
      by blast
    from detect_of_field[OF m field_pnpm[OF f p]] show ?thesis by simp
  qed
  have locks: "detectPackageManager w d =
           (case firstLockFile (files w) d lockFiles of
              Some m \<Rightarrow> (m, [])
            | None \<Rightarrow>
                if exec_ok w ''which pnpm'' d then (Pnpm, [Exec ''which pnpm'' d])
                else if exec_ok w ''which yarn'' d
                then (Yarn, [Exec ''which pnpm'' d, Exec ''which yarn'' d])
                else (Npm, [Exec ''which pnpm'' d, Exec ''which yarn'' d]))
      \<and> treeDetectPackageManager (files w) d =
           (case firstLockFile (files w) d lockFiles of Some m \<Rightarrow> m | None \<Rightarrow> Npm)"
    if "?noField"
    using detect_no_field[OF that] by simp
  have broken: "detectPackageManager w d = (Npm, [])
             \<and> treeDetectPackageManager (files w) d = Npm"
    if "?manifest = Some Dir \<or> ?manifest = Some (File None)
            \<or> ?manifest = Some (File (Some JNull))"
    using that
    by (auto simp: detectPackageManager_def treeDetectPackageManager_def pathExists_def
          readJson_def readFileAsJson_def packageManagerField_def dot_prop_def
          simp del: path_join_package_json)
  show ?thesis
    unfolding Let_def
    using named broken locks by (simp add: lock_priority)
qed

text \<open>
  A manifest naming \<open>pnpm@8.0.0\<close> beside \<open>yarn.lock\<close> gives pnpm; a manifest without the
  field beside \<open>yarn.lock\<close> and \<open>package-lock.json\<close> gives yarn.
\<close>

theorem C4_witness:
  "detectPackageManager (world_of pnpm_field_files) [''proj''] = (Pnpm, [])
   \<and> pathExists pnpm_field_files [''proj'', ''yarn.lock'']
   \<and> detectPackageManager (world_of yarn_lock_files) [''proj''] = (Yarn, [])
   \<and> treeDetectPackageManager yarn_lock_files [''proj''] = Yarn
   \<and> pathExists yarn_lock_files [''proj'', ''package-lock.json'']"
proof -
  have a: "files (world_of pnpm_field_files) (path_join [''proj''] [''package.json''])
      = Some (File (Some (JObj [(''name'', JStr ''app''), (''packageManager'', JStr ''pnpm@8.0.0'')])))"
    by (simp add: world_of_def pnpm_field_files_def)
  have b: "get_prop (JObj [(''name'', JStr ''app''), (''packageManager'', JStr ''pnpm@8.0.0'')])
       ''packageManager'' = Some (JStr ''pnpm@8.0.0'')"
    by (simp add: get_prop_def)
  have c: "takeWhile (\<lambda>c. c \<noteq> CHR ''@'') ''pnpm@8.0.0'' = ''pnpm''"
    by simp
  have d: "files (world_of yarn_lock_files) (path_join [''proj''] [''package.json''])
      = Some (File (Some (JObj [(''name'', JStr ''app'')])))"
    by (simp add: world_of_def yarn_lock_files_def)
  have e: "get_prop (JObj [(''name'', JStr ''app'')]) ''packageManager'' = None"
    by (simp add: get_prop_def)
  have l1: "\<not> pathExists (files (world_of yarn_lock_files)) (path_join [''proj''] [''pnpm-lock.yaml''])"
    by code_simp
  have l2: "pathExists (files (world_of yarn_lock_files)) (path_join [''proj''] [''yarn.lock''])"
    by code_simp
  have l3: "pathExists yarn_lock_files [''proj'', ''package-lock.json'']"
    by code_simp
  have l4: "pathExists pnpm_field_files [''proj'', ''yarn.lock'']"
    by code_simp
  have f: "files (world_of yarn_lock_files) = yarn_lock_files"
    by (simp add: world_of_def)
  from C4_detection_priority[of "world_of pnpm_field_files" "[''proj'']"] a b c
  have "detectPackageManager (world_of pnpm_field_files) [''proj''] = (Pnpm, [])"
    unfolding Let_def by blast
  moreover from C4_detection_priority[of "world_of yarn_lock_files" "[''proj'']"] d e l1 l2
  have "detectPackageManager (world_of yarn_lock_files) [''proj''] = (Yarn, [])
     \<and> treeDetectPackageManager (files (world_of yarn_lock_files)) [''proj''] = Yarn"
    unfolding Let_def by blast
  ultimately show ?thesis
    using l3 l4 f by simp
qed

subsection \<open>C5: a peer install never installs or probes for the types companion\<close>

text \<open>
  C5. For every package manager and package, \<open>buildInstallCommand\<close> with the peer install
  type gives the single peer-install command, whether or not the types companion was
  asked for. In \<open>installPackage\<close> with the peer install type, every task that is run is
  that single command, the only shell commands executed are the \<open>which\<close> probes of the
  package-manager detection, and nothing the types existence probe
  (\<open>checkTypesPackageExists\<close>) would do takes place.
\<close>

theorem C5_peer_install_single_command:
  "buildInstallCommand pm pkg ''--save-peer'' includeTypes =
     (case pm of Npm \<Rightarrow> ''npm install --save-peer '' | Pnpm \<Rightarrow> ''pnpm add -P ''
      | Yarn \<Rightarrow> ''yarn add -P '') @ pkg_name pkg @ ''@'' @ pkg_version pkg
   \<and> (\<forall>cwd cmd m. RunTask cwd cmd m \<in> set (installPackage w pkg ''--save-peer'')
         \<longrightarrow> cmd = buildInstallCommand m pkg ''--save-peer'' True)
   \<and> (\<forall>cmd cwd. Exec cmd cwd \<in> set (installPackage w pkg ''--save-peer'')
         \<longrightarrow> cmd = ''which pnpm'' \<or> cmd = ''which yarn'')
   \<and> (\<forall>m cwd. set (snd (checkTypesPackageExists w m (pkg_name pkg) cwd))
         \<inter> set (installPackage w pkg ''--save-peer'') = {})"
proof (intro conjI allI impI)
  show "buildInstallCommand pm pkg ''--save-peer'' includeTypes =
     (case pm of Npm \<Rightarrow> ''npm install --save-peer '' | Pnpm \<Rightarrow> ''pnpm add -P ''
      | Yarn \<Rightarrow> ''yarn add -P '') @ pkg_name pkg @ ''@'' @ pkg_version pkg"
    by (rule peer_command)
next
  fix cwd cmd m
  assume "RunTask cwd cmd m \<in> set (installPackage w pkg ''--save-peer'')"
  from install_peer_effects[OF this] show "cmd = buildInstallCommand m pkg ''--save-peer'' True"
    by auto
next
  fix cmd cwd
  assume "Exec cmd cwd \<in> set (installPackage w pkg ''--save-peer'')"
  from install_peer_effects[OF this] show "cmd = ''which pnpm'' \<or> cmd = ''which yarn''"
    by auto
next
  fix m cwd
  have "e \<notin> set (installPackage w pkg ''--save-peer'')"
    if a: "e \<in> set (snd (checkTypesPackageExists w m (pkg_name pkg) cwd))" for e
  proof
    assume b: "e \<in> set (installPackage w pkg ''--save-peer'')"
    from a have "\<exists>c. e = Exec c cwd \<and> c \<noteq> ''which pnpm'' \<and> c \<noteq> ''which yarn''"
      by (auto simp: checkTypesPackageExists_def Let_def)
    with install_peer_effects[OF b] show False
      by auto
  qed
  then show "set (snd (checkTypesPackageExists w m (pkg_name pkg) cwd))
         \<inter> set (installPackage w pkg ''--save-peer'') = {}"
    by blast
qed

text \<open>
  The spec's example: pnpm, react 18.0.0, peer, types asked for. In a project managed by
  pnpm the peer install runs exactly that command and no probe, while the dev install of
  the same package does run the probe.
\<close>

theorem C5_witness:
  "buildInstallCommand Pnpm ex_react ''--save-peer'' True = ''pnpm add -P react@18.0.0''
   \<and> RunTask [''ws''] ''pnpm add -P react@18.0.0'' Pnpm
        \<in> set (installPackage peer_world ex_react ''--save-peer'')
   \<and> Exec ''pnpm view @types/react version'' [''ws'']
        \<notin> set (installPackage peer_world ex_react ''--save-peer'')
   \<and> Exec ''pnpm view @types/react version'' [''ws'']
        \<in> set (installPackage peer_world ex_react ''--save-dev'')"
proof -
  have run: "RunTask [''ws''] ''pnpm add -P react@18.0.0'' Pnpm
        \<in> set (installPackage peer_world ex_react ''--save-peer'')"
    by (simp add: peer_world_run)
  have dev: "Exec ''pnpm view @types/react version'' [''ws'']
        \<in> set (installPackage peer_world ex_react ''--save-dev'')"
    by code_simp
  from C5_peer_install_single_command[of Pnpm ex_react True peer_world] run dev
  show ?thesis
    by (auto simp: ex_react_def)
qed

subsection \<open>C6: the dev install of lodash with its types\<close>

text \<open>
  C6. For npm, the package lodash 4.17.21, the dev install type and the types companion
  included, \<open>buildInstallCommand\<close> returns exactly
  \<open>npm install --save-dev lodash@4.17.21 && npm install --save-dev @types/lodash\<close>.
\<close>

theorem C6_npm_dev_with_types:
  "buildInstallCommand Npm \<lparr>pkg_name = ''lodash'', pkg_version = ''4.17.21''\<rparr> ''--save-dev'' True
     = ''npm install --save-dev lodash@4.17.21 && npm install --save-dev @types/lodash''"
  by (simp add: buildInstallCommand_def mainInstallCommand_def typesInstallCommand_def)

text \<open>
  The parts of that string: the main command on \<open>name@version\<close>, the separator, and the
  dev install of the types package.
\<close>

theorem C6_witness:
  "buildInstallCommand Npm ex_lodash ''--save-dev'' True =
     buildInstallCommand Npm ex_lodash ''--save-dev'' False @ '' && ''
     @ typesInstallCommand Npm ''@types/lodash''
   \<and> buildInstallCommand Npm ex_lodash ''--save-dev'' False
        = ''npm install --save-dev '' @ ''lodash'' @ ''@'' @ ''4.17.21''"
  using C6_npm_dev_with_types
  by (simp add: ex_lodash_def buildInstallCommand_def mainInstallCommand_def
        typesInstallCommand_def)

subsection \<open>C7: roots come peer, then direct, then dev, each group as \<open>Object.keys\<close> lists it\<close>




subsection \<open>C8: no module-resolution probe for \<open>@types/\<close> names\<close>

text \<open>
  C8. For every dependency name that begins with \<open>@types/\<close> and every starting
  directory, the candidate-root step (\<open>resolvePackageDir\<close>) returns no candidate and makes
  no \<open>require.resolve\<close> probe, whatever that probe would have found; the locator
  (\<open>getPackageJsonFromPath\<close>) is then the manifest search from the starting directory, and
  no probe appears among its effects.
\<close>

theorem C8_types_names_skip_probe:
  assumes "prefix ''@types/'' moduleName"
  shows "resolvePackageDir fs resolve moduleName dir = (None, [])
       \<and> getPackageJsonFromPath fs workspaceRoot resolve registry moduleName dir
           = findPackageJson fs workspaceRoot registry moduleName dir
       \<and> (\<forall>name d. Resolve name d
             \<notin> set (snd (getPackageJsonFromPath fs workspaceRoot resolve registry moduleName dir)))"
proof -
  from assms have inc: "str_includes moduleName ''@types/''"
    by (rule prefix_includes)
  then have r: "resolvePackageDir fs resolve moduleName dir = (None, [])"
    by (simp add: resolvePackageDir_def)
  then have g: "getPackageJsonFromPath fs workspaceRoot resolve registry moduleName dir
           = findPackageJson fs workspaceRoot registry moduleName dir"
    by (simp add: getPackageJsonFromPath_def split: prod.splits)
  have "Resolve name d \<notin> set (snd (findPackageJson fs workspaceRoot registry moduleName dir))"
    for name d
    using find_effects[of fs workspaceRoot registry moduleName dir] by auto
  with r g show ?thesis by simp
qed

text \<open>
  \<open>@types/node\<close> is located without a probe although the resolution would succeed;
  \<open>react\<close>, in the same workspace, is probed.
\<close>

theorem C8_witness:
  "prefix ''@types/'' ''@types/node''
   \<and> getPackageJsonFromPath types_files (Some [''ws'']) types_resolve (\<lambda>n. JNull) ''@types/node'' [''ws'']
       = (JObj [(''name'', JStr ''@types/node''), (''version'', JStr ''20.1.0'')], [])
   \<and> getPackageJsonFromPath types_files (Some [''ws'']) types_resolve (\<lambda>n. JNull) ''react'' [''ws'']
       = (JObj [(''name'', JStr ''react''), (''version'', JStr ''18.0.0'')],
          [Resolve ''react'' [''ws'']])"
proof -
  have p: "prefix ''@types/'' ''@types/node''" by simp
  have f: "findPackageJson types_files (Some [''ws'']) (\<lambda>n. JNull) ''@types/node'' [''ws'']
       = (JObj [(''name'', JStr ''@types/node''), (''version'', JStr ''20.1.0'')], [])"
    by code_simp
  have r: "getPackageJsonFromPath types_files (Some [''ws'']) types_resolve (\<lambda>n. JNull) ''react'' [''ws'']
       = (JObj [(''name'', JStr ''react''), (''version'', JStr ''18.0.0'')],
          [Resolve ''react'' [''ws'']])"
    by code_simp
  from C8_types_names_skip_probe[OF p, of types_files types_resolve "[''ws'']" "Some [''ws'']" "\<lambda>n. JNull"] f r p
  show ?thesis by simp
qed

subsection \<open>C9: the registry cache answers for less than one hour\<close>

text \<open>
  C9, as stated, fails in its last part: the cached entry is overwritten only when the
  request succeeds. With the registry down, a lookup made 61 minutes after the entry was
  stored sends the request, returns \<open>null\<close> and leaves the stale entry in the cache.
\<close>

theorem C9_counterexample:
  "ttl_cache (cacheKey ''left-pad'' None)
      = Some (JObj [(''name'', JStr ''left-pad''), (''version'', JStr ''1.2.0'')], 1000)
   \<and> getPackageInfo down_fetch (1000 + 61 * 60 * 1000) (1200 + 61 * 60 * 1000) ttl_cache
        ''left-pad'' None
      = (JNull, ttl_cache,
         [Fetch ''https://registry.npmjs.org/left-pad'',
          ShowErrorOf ''Failed to fetch package information: '' (HttpError 500)])"
  by (simp add: getPackageInfo_def fetchPackageInfo_def cacheKey_def ttl_cache_def ttl_url
        down_fetch_def response_ok_def CACHE_DURATION_def)

text \<open>
  C9, amended. The cache key is the package name, or \<open>name@version\<close> when a version is
  given. When the cache holds an entry for the key, \<open>getPackageInfo\<close> returns the entry's
  data with the cache unchanged and nothing done (no request) if and only if the entry's
  age \<open>now - timestamp\<close> is strictly less than one hour (3600000 ms), and it sends the
  registry request if and only if the age is not, as at 61 minutes. When that request
  succeeds (a 2xx status with a JSON body), the data replaces the entry under the same
  key, stamped with the time read when it is stored, and is returned. When it fails
  (rejected, another status, or a body that does not parse), \<open>null\<close> is returned and the
  cache, the stale entry included, is left as it was.
\<close>

theorem C9_cache_one_hour:
  "cacheKey packageName None = packageName
   \<and> (v \<noteq> [] \<longrightarrow> cacheKey packageName (Some v) = packageName @ ''@'' @ v)
   \<and> (cache (cacheKey packageName ver) = Some (data, timestamp) \<longrightarrow>
        ((getPackageInfo fetch now later cache packageName ver = (data, cache, []))
            \<longleftrightarrow> now - timestamp < 60 * 60 * 1000)
        \<and> ((Fetch (packageUrl packageName ver)
              \<in> set (snd (snd (getPackageInfo fetch now later cache packageName ver))))
            \<longleftrightarrow> \<not> now - timestamp < 60 * 60 * 1000)
        \<and> (\<not> now - timestamp < 60 * 60 * 1000 \<longrightarrow>
             fetch (packageUrl packageName ver) = Response status (Some fresh) \<longrightarrow>
             response_ok status \<longrightarrow>
             getPackageInfo fetch now later cache packageName ver
               = (fresh, cache(cacheKey packageName ver \<mapsto> (fresh, later)),
                  [Fetch (packageUrl packageName ver)]))
        \<and> (\<not> now - timestamp < 60 * 60 * 1000 \<longrightarrow>
             (fetch (packageUrl packageName ver) = Rejected
              \<or> (\<exists>code body. fetch (packageUrl packageName ver) = Response code body
                    \<and> (\<not> response_ok code \<or> body = None))) \<longrightarrow>
             fst (getPackageInfo fetch now later cache packageName ver) = JNull
             \<and> fst (snd (getPackageInfo fetch now later cache packageName ver)) = cache))"
proof (intro conjI impI)
  show "cacheKey packageName None = packageName"
    by (simp add: cacheKey_def)
next
  assume "v \<noteq> []"
  then show "cacheKey packageName (Some v) = packageName @ ''@'' @ v"
    by (simp add: cacheKey_def)
next
  assume c: "cache (cacheKey packageName ver) = Some (data, timestamp)"
  obtain rest where rest: "snd (snd (fetchPackageInfo fetch later cache packageName ver))
     = Fetch (packageUrl packageName ver) # rest"
    using fetch_effects_hd by blast
  show "(getPackageInfo fetch now later cache packageName ver = (data, cache, []))
            \<longleftrightarrow> now - timestamp < 60 * 60 * 1000"
  proof (cases "now - timestamp < 60 * 60 * 1000")
    case True
    with c show ?thesis by (simp add: getPackageInfo_def CACHE_DURATION_def)
  next
    case False
    with c have "getPackageInfo fetch now later cache packageName ver
        = fetchPackageInfo fetch later cache packageName ver"
      by (simp add: getPackageInfo_def CACHE_DURATION_def)
    with rest False show ?thesis by auto
  qed
  show "(Fetch (packageUrl packageName ver)
              \<in> set (snd (snd (getPackageInfo fetch now later cache packageName ver))))
            \<longleftrightarrow> \<not> now - timestamp < 60 * 60 * 1000"
  proof (cases "now - timestamp < 60 * 60 * 1000")
    case True
    with c show ?thesis by (simp add: getPackageInfo_def CACHE_DURATION_def)
  next
    case False
    with c have "getPackageInfo fetch now later cache packageName ver
        = fetchPackageInfo fetch later cache packageName ver"
      by (simp add: getPackageInfo_def CACHE_DURATION_def)
    with rest False show ?thesis by auto
  qed
next
  assume c: "cache (cacheKey packageName ver) = Some (data, timestamp)"
    and age: "\<not> now - timestamp < 60 * 60 * 1000"
    and f: "fetch (packageUrl packageName ver) = Response status (Some fresh)"
    and ok: "response_ok status"
  from c age have "getPackageInfo fetch now later cache packageName ver
        = fetchPackageInfo fetch later cache packageName ver"
    by (simp add: getPackageInfo_def CACHE_DURATION_def)
  with fetch_success[of fetch packageName ver status fresh later cache, OF f ok]
  show "getPackageInfo fetch now later cache packageName ver
               = (fresh, cache(cacheKey packageName ver \<mapsto> (fresh, later)),
                  [Fetch (packageUrl packageName ver)])"
    by simp
next
  assume c: "cache (cacheKey packageName ver) = Some (data, timestamp)"
    and age: "\<not> now - timestamp < 60 * 60 * 1000"
    and f: "fetch (packageUrl packageName ver) = Rejected
              \<or> (\<exists>code body. fetch (packageUrl packageName ver) = Response code body
                    \<and> (\<not> response_ok code \<or> body = None))"
  from c age have g: "getPackageInfo fetch now later cache packageName ver
        = fetchPackageInfo fetch later cache packageName ver"
    by (simp add: getPackageInfo_def CACHE_DURATION_def)
  from fetch_failure[of fetch packageName ver later cache, OF f] g
  show "fst (getPackageInfo fetch now later cache packageName ver) = JNull"
    by simp
  from fetch_failure[of fetch packageName ver later cache, OF f] g
  show "fst (snd (getPackageInfo fetch now later cache packageName ver)) = cache"
    by simp
qed

text \<open>
  An entry stored at time 1000 is served from the cache 59 minutes later and, with the
  registry answering, refetched and overwritten 61 minutes later.
\<close>

theorem C9_witness:
  "ttl_cache (cacheKey ''left-pad'' None)
      = Some (JObj [(''name'', JStr ''left-pad''), (''version'', JStr ''1.2.0'')], 1000)
   \<and> getPackageInfo ttl_fetch (1000 + 59 * 60 * 1000) (1200 + 59 * 60 * 1000) ttl_cache ''left-pad'' None
      = (JObj [(''name'', JStr ''left-pad''), (''version'', JStr ''1.2.0'')], ttl_cache, [])
   \<and> getPackageInfo ttl_fetch (1000 + 61 * 60 * 1000) (1200 + 61 * 60 * 1000) ttl_cache ''left-pad'' None
      = (JObj [(''name'', JStr ''left-pad''), (''version'', JStr ''1.3.0'')],
         ttl_cache(''left-pad'' \<mapsto>
           (JObj [(''name'', JStr ''left-pad''), (''version'', JStr ''1.3.0'')], 1200 + 61 * 60 * 1000)),
         [Fetch ''https://registry.npmjs.org/left-pad''])"
proof -
  let ?old = "JObj [(''name'', JStr ''left-pad''), (''version'', JStr ''1.2.0'')]"
  let ?new = "JObj [(''name'', JStr ''left-pad''), (''version'', JStr ''1.3.0'')]"
  have k: "cacheKey ''left-pad'' None = ''left-pad''"
    by (simp add: cacheKey_def)
  have c: "ttl_cache (cacheKey ''left-pad'' None) = Some (?old, 1000)"
    by (simp add: k ttl_cache_def)
  have f: "ttl_fetch (packageUrl ''left-pad'' None) = Response 200 (Some ?new)"
    by (simp add: ttl_url ttl_fetch_def)
  have ok: "response_ok 200"
    by (simp add: response_ok_def)
  note a = C9_cache_one_hour[of "''left-pad''" "''1.0.0''" ttl_cache None ?old 1000 ttl_fetch
      "1000 + 59 * 60 * 1000" "1200 + 59 * 60 * 1000" 200 ?new]
  note b = C9_cache_one_hour[of "''left-pad''" "''1.0.0''" ttl_cache None ?old 1000 ttl_fetch
      "1000 + 61 * 60 * 1000" "1200 + 61 * 60 * 1000" 200 ?new]
  from a c have "getPackageInfo ttl_fetch (1000 + 59 * 60 * 1000) (1200 + 59 * 60 * 1000) ttl_cache ''left-pad'' None
      = (?old, ttl_cache, [])"
    by simp
  moreover from b c f ok have "getPackageInfo ttl_fetch (1000 + 61 * 60 * 1000) (1200 + 61 * 60 * 1000) ttl_cache ''left-pad'' None
      = (?new, ttl_cache(''left-pad'' \<mapsto> (?new, 1200 + 61 * 60 * 1000)),
         [Fetch ''https://registry.npmjs.org/left-pad''])"
    by (simp add: k ttl_url)
  ultimately show ?thesis using c by simp
qed

subsection \<open>C10: when \<open>removePackage\<close> refuses, and when it removes the types too\<close>

text \<open>
  C10, as stated, fails in three places. The types step is decided by the truthiness of
  the declared version, so a types package declared with the empty string as its range is
  left out of the command although it is declared: the manifest below declares \<open>lodash\<close>
  and \<open>@types/lodash\<close>, and only \<open>lodash\<close> is removed. The package manager is detected
  before the manifest is looked at, so in a directory without \<open>package.json\<close> and without
  lock files \<open>which pnpm\<close> and \<open>which yarn\<close> are executed before the error is shown. And
  the declared test is a property read that reaches the prototypes: the same manifest
  does not declare \<open>constructor\<close>, yet the removal of \<open>constructor\<close> is run.
\<close>

theorem C10_counterexample:
  "empty_range_files [''proj'', ''package.json'']
     = Some (File (Some (JObj [(''name'', JStr ''app''),
                               (''dependencies'', JObj [(''lodash'', JStr ''^4.17.21'')]),
                               (''devDependencies'', JObj [(''@types/lodash'', JStr [])])])))
   \<and> tasksOf (snd (removePackage (world_of empty_range_files) ''lodash'' [''proj'']))
       = [RunTask [''proj''] ''npm uninstall lodash'' Npm]
   \<and> no_files [''proj'', ''package.json''] = None
   \<and> snd (removePackage (world_of no_files) ''lodash'' [''proj''])
       = [Exec ''which pnpm'' [''proj''], Exec ''which yarn'' [''proj''],
          ShowError ''No package.json found in dir ${workspaceRoot}'']
   \<and> tasksOf (snd (removePackage (world_of empty_range_files) ''constructor'' [''proj'']))
       = [RunTask [''proj''] ''npm uninstall constructor'' Npm]"
  by code_simp

text \<open>
  C10, amended. Let \<open>detectFx\<close> be what detecting the package manager in \<open>dir\<close> does:
  nothing but \<open>which pnpm\<close> and \<open>which yarn\<close>. If \<open>dir\<close> holds no \<open>package.json\<close>, or one
  that cannot be read or parsed, or one in which the read of the package name gives
  nothing in each of \<open>dependencies\<close>, \<open>devDependencies\<close>, \<open>peerDependencies\<close>, then
  \<open>removePackage\<close> does \<open>detectFx\<close>, shows one error message and runs no task (in the
  unreadable case it also throws the error). The read gives nothing in a group when the
  package name is not a member of \<open>Object.prototype\<close> (such as \<open>constructor\<close> or
  \<open>toString\<close>) and the group is absent or is a map without an entry of that name. If
  the read is truthy in one of the three groups, exactly one task is run: the removal of
  the package joined by \<open>&&\<close> with the removal of \<open>@types/<packageName>\<close> when the read of
  that types package is truthy in one of the three groups, and the removal of the
  package alone when it gives nothing in any of them.
\<close>

theorem C10_remove_guards:
  "let manifest = files w (path_join dir [''package.json'']);
       pm = fst (detectPackageManager w dir);
       detectFx = snd (detectPackageManager w dir);
       typesPackage = ''@types/'' @ packageName;
       ran = removePackage w packageName dir
   in set detectFx \<subseteq> {Exec ''which pnpm'' dir, Exec ''which yarn'' dir}
      \<and> (\<forall>pkg depGroup.
            packageName \<notin> set objectPrototype
            \<and> (opt_prop (Some pkg) depGroup = None
                \<or> (\<exists>kvs. opt_prop (Some pkg) depGroup = Some (JObj kvs)
                       \<and> map_of kvs packageName = None)) \<longrightarrow>
            declaredIn w pkg depGroup packageName = Undefined)
      \<and> (manifest = None \<longrightarrow>
            ran = (Inr (), detectFx @ [ShowError ''No package.json found in dir ${workspaceRoot}''])
            \<and> tasksOf (snd ran) = [])
      \<and> (manifest = Some Dir \<or> manifest = Some (File None) \<longrightarrow>
            (\<exists>err. ran = (Inl err, detectFx @ [ShowErrorOf ''Failed to remove package: '' err]))
            \<and> tasksOf (snd ran) = [])
      \<and> (\<forall>pkg. manifest = Some (File (Some pkg))
              \<and> declaredIn w pkg ''dependencies'' packageName = Undefined
              \<and> declaredIn w pkg ''devDependencies'' packageName = Undefined
              \<and> declaredIn w pkg ''peerDependencies'' packageName = Undefined \<longrightarrow>
            ran = (Inr (), detectFx @ [ShowError (''Package '' @ packageName
                           @ '' not found in package.json in dir '' @ render dir)])
            \<and> tasksOf (snd ran) = [])
      \<and> (\<forall>pkg. manifest = Some (File (Some pkg))
              \<and> (truthy_val (declaredIn w pkg ''dependencies'' packageName)
                  \<or> truthy_val (declaredIn w pkg ''devDependencies'' packageName)
                  \<or> truthy_val (declaredIn w pkg ''peerDependencies'' packageName)) \<longrightarrow>
            (truthy_val (declaredIn w pkg ''dependencies'' typesPackage)
               \<or> truthy_val (declaredIn w pkg ''devDependencies'' typesPackage)
               \<or> truthy_val (declaredIn w pkg ''peerDependencies'' typesPackage) \<longrightarrow>
             tasksOf (snd ran) =
               [RunTask dir (removeVerb pm @ packageName @ '' && '' @ removeVerb pm @ typesPackage) pm])
            \<and> (declaredIn w pkg ''dependencies'' typesPackage = Undefined
               \<and> declaredIn w pkg ''devDependencies'' typesPackage = Undefined
               \<and> declaredIn w pkg ''peerDependencies'' typesPackage = Undefined \<longrightarrow>
             tasksOf (snd ran) = [RunTask dir (removeVerb pm @ packageName) pm]))"
proof -
  let ?manifest = "files w (path_join dir [''package.json''])"
  let ?ran = "removePackage w packageName dir"
  let ?fx = "snd (detectPackageManager w dir)"
  let ?pm = "fst (detectPackageManager w dir)"
  let ?types = "''@types/'' @ packageName"
  have g1: "?ran = (Inr (), ?fx @ [ShowError ''No package.json found in dir ${workspaceRoot}''])
            \<and> tasksOf (snd ?ran) = []" if "?manifest = None"
    using remove_absent[OF that, of packageName] by simp
  have g2: "(\<exists>err. ?ran = (Inl err, ?fx @ [ShowErrorOf ''Failed to remove package: '' err]))
            \<and> tasksOf (snd ?ran) = []" if "?manifest = Some Dir \<or> ?manifest = Some (File None)"
  proof -
    from that obtain err where e: "readJson (files w) (path_join dir [''package.json'']) = Inl err"
      and n: "?manifest \<noteq> None"
      by (auto simp: readJson_def)
    from remove_unreadable[OF n e, of packageName] show ?thesis by simp
  qed
  have g3: "?ran = (Inr (), ?fx @ [ShowError (''Package '' @ packageName
                           @ '' not found in package.json in dir '' @ render dir)])
            \<and> tasksOf (snd ?ran) = []"
    if "?manifest = Some (File (Some pkg))"
      and "declaredIn w pkg ''dependencies'' packageName = Undefined"
      and "declaredIn w pkg ''devDependencies'' packageName = Undefined"
      and "declaredIn w pkg ''peerDependencies'' packageName = Undefined" for pkg
    using remove_undeclared[OF that(1), of packageName] that(2-4) by simp
  have t: "tasksOf (snd ?ran) =
           [RunTask dir
              (buildRemoveCommand ?pm packageName
                 (truthy_val (declaredIn w pkg ''devDependencies'' ?types)
                  \<or> truthy_val (declaredIn w pkg ''peerDependencies'' ?types)
                  \<or> truthy_val (declaredIn w pkg ''dependencies'' ?types))) ?pm]"
    if "?manifest = Some (File (Some pkg))"
      and "truthy_val (declaredIn w pkg ''dependencies'' packageName)
                  \<or> truthy_val (declaredIn w pkg ''devDependencies'' packageName)
                  \<or> truthy_val (declaredIn w pkg ''peerDependencies'' packageName)" for pkg
    using remove_declared_tasks[OF that] by simp
  have t1: "tasksOf (snd ?ran) =
               [RunTask dir (removeVerb ?pm @ packageName @ '' && '' @ removeVerb ?pm @ ?types) ?pm]"
    if "?manifest = Some (File (Some pkg))"
      and "truthy_val (declaredIn w pkg ''dependencies'' packageName)
                  \<or> truthy_val (declaredIn w pkg ''devDependencies'' packageName)
                  \<or> truthy_val (declaredIn w pkg ''peerDependencies'' packageName)"
      and "truthy_val (declaredIn w pkg ''dependencies'' ?types)
               \<or> truthy_val (declaredIn w pkg ''devDependencies'' ?types)
               \<or> truthy_val (declaredIn w pkg ''peerDependencies'' ?types)" for pkg
    using t[OF that(1,2)] that(3) by (auto simp: buildRemoveCommand_def)
  have t2: "tasksOf (snd ?ran) = [RunTask dir (removeVerb ?pm @ packageName) ?pm]"
    if "?manifest = Some (File (Some pkg))"
      and "truthy_val (declaredIn w pkg ''dependencies'' packageName)
                  \<or> truthy_val (declaredIn w pkg ''devDependencies'' packageName)
                  \<or> truthy_val (declaredIn w pkg ''peerDependencies'' packageName)"
      and "declaredIn w pkg ''dependencies'' ?types = Undefined"
      and "declaredIn w pkg ''devDependencies'' ?types = Undefined"
      and "declaredIn w pkg ''peerDependencies'' ?types = Undefined" for pkg
    using t[OF that(1,2)] that(3-5) by (simp add: buildRemoveCommand_def)
  have nd: "declaredIn w pkg depGroup packageName = Undefined"
    if "packageName \<notin> set objectPrototype
            \<and> (opt_prop (Some pkg) depGroup = None
                \<or> (\<exists>kvs. opt_prop (Some pkg) depGroup = Some (JObj kvs)
                       \<and> map_of kvs packageName = None))" for pkg depGroup
    using that not_declared[of packageName pkg depGroup w] by blast
  have guards: "(?manifest = None \<longrightarrow>
            ?ran = (Inr (), ?fx @ [ShowError ''No package.json found in dir ${workspaceRoot}''])
            \<and> tasksOf (snd ?ran) = [])
      \<and> (?manifest = Some Dir \<or> ?manifest = Some (File None) \<longrightarrow>
            (\<exists>err. ?ran = (Inl err, ?fx @ [ShowErrorOf ''Failed to remove package: '' err]))
            \<and> tasksOf (snd ?ran) = [])"
    using g1 g2 by blast
  show ?thesis
    unfolding Let_def
    using detect_only_which[of w dir] nd guards g3 t1 t2 by blast
qed

text \<open>
  In the yarn project, removing the undeclared \<open>lodash\<close> only shows the error, and
  removing \<open>axios\<close> runs \<open>yarn remove axios && yarn remove @types/axios\<close>.
\<close>

theorem C10_witness:
  "removePackage (world_of axios_files) ''lodash'' [''proj'']
     = (Inr (), [ShowError ''Package lodash not found in package.json in dir /proj''])
   \<and> tasksOf (snd (removePackage (world_of axios_files) ''axios'' [''proj'']))
     = [RunTask [''proj''] ''yarn remove axios && yarn remove @types/axios'' Yarn]"
proof -
  let ?pkg = "JObj [(''name'', JStr ''app''),
                    (''dependencies'', JObj [(''axios'', JStr ''^1.6.0'')]),
                    (''devDependencies'', JObj [(''@types/axios'', JStr ''^0.14.0'')])]"
  have m: "files (world_of axios_files) (path_join [''proj''] [''package.json''])
      = Some (File (Some ?pkg))"
    by (simp add: world_of_def axios_files_def)
  have d: "detectPackageManager (world_of axios_files) [''proj''] = (Yarn, [])"
    by code_simp
  have l: "declaredIn (world_of axios_files) ?pkg ''dependencies'' ''lodash'' = Undefined"
      "declaredIn (world_of axios_files) ?pkg ''devDependencies'' ''lodash'' = Undefined"
      "declaredIn (world_of axios_files) ?pkg ''peerDependencies'' ''lodash'' = Undefined"
    by code_simp+
  have a: "truthy_val (declaredIn (world_of axios_files) ?pkg ''dependencies'' ''axios'')"
      "truthy_val (declaredIn (world_of axios_files) ?pkg ''devDependencies'' (''@types/'' @ ''axios''))"
    by code_simp+
  have r: "render [''proj''] = ''/proj''"
    by (simp add: render_def)
  from C10_remove_guards[of "world_of axios_files" "[''proj'']" "''lodash''"] m d l r
  have "removePackage (world_of axios_files) ''lodash'' [''proj'']
     = (Inr (), [ShowError ''Package lodash not found in package.json in dir /proj''])"
    unfolding Let_def by simp
  moreover from C10_remove_guards[of "world_of axios_files" "[''proj'']" "''axios''"] m d a
  have "tasksOf (snd (removePackage (world_of axios_files) ''axios'' [''proj'']))
     = [RunTask [''proj''] ''yarn remove axios && yarn remove @types/axios'' Yarn]"
    unfolding Let_def by (simp add: removeVerb_def)
  ultimately show ?thesis by simp
qed

end
